theory Spec2Isabelle
  imports Complex_Main "HOL-Library.Sublist"
begin

section \<open>Python values the two scripts handle\<close>

text \<open>
  Both scripts (\<^verbatim>\<open>detection_tiling_pipeline.py\<close> and
  \<^verbatim>\<open>detection_preserve_resolution_pipeline.py\<close>) are Python. Python's unbounded
  \<^verbatim>\<open>int\<close> is \<^typ>\<open>int\<close>; a \<^verbatim>\<open>str\<close> is a \<^typ>\<open>string\<close> whose characters stand for
  the code points below 256.

  A Python \<^verbatim>\<open>float\<close> is either a finite number, one of the two infinities, or NaN
  (\<^verbatim>\<open>argparse\<close> with \<^verbatim>\<open>type=float\<close> accepts the words \<^verbatim>\<open>nan\<close> and \<^verbatim>\<open>inf\<close>). The code only
  compares floats with \<^verbatim>\<open>0.0\<close> and \<^verbatim>\<open>1.0\<close> and prints them, so a finite float is
  represented by the real number it denotes; every real is admitted, which includes
  every double.
\<close>

datatype pyfloat = Finite real | PosInf | NegInf | NaN

text \<open>Python's \<^verbatim>\<open>a <= b\<close> on floats: false whenever an operand is NaN.\<close>

fun float_le :: "pyfloat \<Rightarrow> pyfloat \<Rightarrow> bool" where
  "float_le NaN _ = False"
| "float_le _ NaN = False"
| "float_le NegInf _ = True"
| "float_le _ PosInf = True"
| "float_le (Finite a) (Finite b) = (a \<le> b)"
| "float_le PosInf _ = False"
| "float_le _ NegInf = False"

text \<open>
  How a float is printed (\<^verbatim>\<open>{x}\<close> in an f-string, that is \<^verbatim>\<open>repr\<close>, and \<^verbatim>\<open>{x:.1%}\<close>)
  is the interpreter's business; the model takes both renderings as parameters.
\<close>

record py_format =
  float_repr :: "pyfloat \<Rightarrow> string"
  float_percent1 :: "pyfloat \<Rightarrow> string"

text \<open>\<^verbatim>\<open>str(n)\<close> for an int: decimal digits, with a leading minus sign when negative.\<close>

fun nat_digits :: "nat \<Rightarrow> string" where
  "nat_digits n =
     (if n < 10 then [''0123456789'' ! n]
      else nat_digits (n div 10) @ [''0123456789'' ! (n mod 10)])"

definition str_int :: "int \<Rightarrow> string" where
  "str_int i = (if i < 0 then CHR ''-'' # nat_digits (nat (- i)) else nat_digits (nat i))"

text \<open>\<^verbatim>\<open>str(b).lower()\<close> for a bool.\<close>

definition str_bool_lower :: "bool \<Rightarrow> string" where
  "str_bool_lower b = (if b then ''true'' else ''false'')"

subsection \<open>Exceptions\<close>

text \<open>
  The classes below \<^verbatim>\<open>Exception\<close> that the scripts raise, catch or can receive from
  \<^verbatim>\<open>pathlib\<close> and GStreamer, each with its message. \<^verbatim>\<open>SystemExit\<close> and
  \<^verbatim>\<open>KeyboardInterrupt\<close> derive from \<^verbatim>\<open>BaseException\<close> only, so an
  \<^verbatim>\<open>except Exception\<close> clause does not catch them.
\<close>

datatype exception =
    FileNotFoundError string
  | ValueError string
  | GLib_Error string
  | FileExistsError string
  | NotADirectoryError string
  | Other_Exception string

datatype raised =
    Exception exception
  | SystemExit int
  | KeyboardInterrupt

section \<open>Configuration constants and command-line arguments\<close>

definition DEFAULT_HEF_PATH :: string where
  "DEFAULT_HEF_PATH = ''/usr/local/hailo/resources/models/hailo8/yolov11m.hef''"

definition DEFAULT_POSTPROCESS_SO :: string where
  "DEFAULT_POSTPROCESS_SO = ''/usr/local/hailo/resources/so/libyolo_hailortpp_postprocess.so''"

definition TILES_X :: int where "TILES_X = 2"
definition TILES_Y :: int where "TILES_Y = 2"
definition OVERLAP_X :: pyfloat where "OVERLAP_X = Finite 0.2"
definition OVERLAP_Y :: pyfloat where "OVERLAP_Y = Finite 0.2"
definition TILING_MODE :: int where "TILING_MODE = 0"
definition TILE_WIDTH :: int where "TILE_WIDTH = 640"
definition TILE_HEIGHT :: int where "TILE_HEIGHT = 640"
definition IOU_THRESHOLD :: pyfloat where "IOU_THRESHOLD = Finite 0.3"
definition BORDER_THRESHOLD :: pyfloat where "BORDER_THRESHOLD = Finite 0.1"
definition REMOVE_LARGE_LANDSCAPE :: bool where "REMOVE_LARGE_LANDSCAPE = True"
definition BITRATE :: int where "BITRATE = 4000"
definition ENCODING_PRESET :: string where "ENCODING_PRESET = ''ultrafast''"
definition INFERENCE_WIDTH :: int where "INFERENCE_WIDTH = 640"
definition INFERENCE_HEIGHT :: int where "INFERENCE_HEIGHT = 640"
definition NMS_SCORE_THRESHOLD :: pyfloat where "NMS_SCORE_THRESHOLD = Finite 0.3"
definition NMS_IOU_THRESHOLD :: pyfloat where "NMS_IOU_THRESHOLD = Finite 0.45"

text \<open>
  The namespace \<^verbatim>\<open>argparse\<close> returns. The six attributes both scripts define are the
  common part; each script extends it.
\<close>

record common_args =
  input_path :: string
  output_path :: string
  hef :: string
  postprocess_so :: string
  bitrate :: int
  debug :: bool

record tiling_args = common_args +
  tiles_x :: int
  tiles_y :: int
  overlap_x :: pyfloat
  overlap_y :: pyfloat
  tiling_mode :: int
  tile_width :: int
  tile_height :: int
  iou_threshold :: pyfloat
  border_threshold :: pyfloat
  remove_large_landscape :: bool

record preserve_args = common_args +
  inference_width :: int
  inference_height :: int

text \<open>
  A command line, after \<^verbatim>\<open>argparse\<close> has matched the option names and converted the
  values (\<^verbatim>\<open>type=int\<close>, \<^verbatim>\<open>type=float\<close>): an option that takes a value is \<open>None\<close> when
  it is not given, a \<^verbatim>\<open>store_true\<close> flag is \<open>True\<close> when it is given. A command line
  \<^verbatim>\<open>argparse\<close> cannot convert is not represented.
\<close>

record common_cli =
  cli_help :: bool
  cli_input :: "string option"
  cli_output :: "string option"
  cli_hef :: "string option"
  cli_postprocess_so :: "string option"
  cli_bitrate :: "int option"
  cli_debug :: bool

record tiling_cli = common_cli +
  cli_tiles_x :: "int option"
  cli_tiles_y :: "int option"
  cli_overlap_x :: "pyfloat option"
  cli_overlap_y :: "pyfloat option"
  cli_tiling_mode :: "int option"
  cli_tile_width :: "int option"
  cli_tile_height :: "int option"
  cli_iou_threshold :: "pyfloat option"
  cli_border_threshold :: "pyfloat option"
  cli_remove_large_landscape :: bool

record preserve_cli = common_cli +
  cli_inference_width :: "int option"
  cli_inference_height :: "int option"

text \<open>
  \<^verbatim>\<open>add_argument(..., default=d)\<close>: the value given, else the default.
  \<^verbatim>\<open>add_argument(..., action="store_true", default=d)\<close>: \<open>True\<close> when the flag is given,
  else the default.
\<close>

definition with_default :: "'a \<Rightarrow> 'a option \<Rightarrow> 'a" where
  "with_default d v = (case v of None \<Rightarrow> d | Some x \<Rightarrow> x)"

definition store_true :: "bool \<Rightarrow> bool \<Rightarrow> bool" where
  "store_true d given = (if given then True else d)"

text \<open>
  \<^verbatim>\<open>parse_args\<close> of the tiling script. \<^verbatim>\<open>parser.parse_args()\<close> leaves through
  \<^verbatim>\<open>SystemExit\<close>: status 0 after printing the help text, status 2 when a
  \<^verbatim>\<open>required=True\<close> option is missing.
\<close>

definition tiling_parse_args :: "tiling_cli \<Rightarrow> raised + tiling_args" where
  "tiling_parse_args c =
     (if cli_help c then Inl (SystemExit 0)
      else case (cli_input c, cli_output c) of
        (Some i, Some out) \<Rightarrow>
          Inr \<lparr> input_path = i, output_path = out,
                hef = with_default DEFAULT_HEF_PATH (cli_hef c),
                postprocess_so = with_default DEFAULT_POSTPROCESS_SO (cli_postprocess_so c),
                bitrate = with_default BITRATE (cli_bitrate c),
                debug = store_true False (cli_debug c),
                tiles_x = with_default TILES_X (cli_tiles_x c),
                tiles_y = with_default TILES_Y (cli_tiles_y c),
                overlap_x = with_default OVERLAP_X (cli_overlap_x c),
                overlap_y = with_default OVERLAP_Y (cli_overlap_y c),
                tiling_mode = with_default TILING_MODE (cli_tiling_mode c),
                tile_width = with_default TILE_WIDTH (cli_tile_width c),
                tile_height = with_default TILE_HEIGHT (cli_tile_height c),
                iou_threshold = with_default IOU_THRESHOLD (cli_iou_threshold c),
                border_threshold = with_default BORDER_THRESHOLD (cli_border_threshold c),
                remove_large_landscape =
                  store_true REMOVE_LARGE_LANDSCAPE (cli_remove_large_landscape c) \<rparr>
      | _ \<Rightarrow> Inl (SystemExit 2))"

text \<open>\<^verbatim>\<open>parse_args\<close> of the resolution-preserving script.\<close>

definition preserve_parse_args :: "preserve_cli \<Rightarrow> raised + preserve_args" where
  "preserve_parse_args c =
     (if cli_help c then Inl (SystemExit 0)
      else case (cli_input c, cli_output c) of
        (Some i, Some out) \<Rightarrow>
          Inr \<lparr> input_path = i, output_path = out,
                hef = with_default DEFAULT_HEF_PATH (cli_hef c),
                postprocess_so = with_default DEFAULT_POSTPROCESS_SO (cli_postprocess_so c),
                bitrate = with_default BITRATE (cli_bitrate c),
                debug = store_true False (cli_debug c),
                inference_width = with_default INFERENCE_WIDTH (cli_inference_width c),
                inference_height = with_default INFERENCE_HEIGHT (cli_inference_height c) \<rparr>
      | _ \<Rightarrow> Inl (SystemExit 2))"

section \<open>Parameter validation (tiling script)\<close>

text \<open>
  \<^verbatim>\<open>TilingResolutionPreservingPipeline._validate_parameters\<close>: seven checks in the
  source's order, each raising \<^verbatim>\<open>ValueError\<close> with its message; the chained comparison
  \<^verbatim>\<open>0.0 <= x <= 1.0\<close> is \<^verbatim>\<open>0.0 <= x and x <= 1.0\<close>.
\<close>

definition validate_parameters :: "py_format \<Rightarrow> tiling_args \<Rightarrow> exception + unit" where
  "validate_parameters fm a =
     (if \<not> (1 \<le> tiles_x a \<and> tiles_x a \<le> 20) then
        Inl (ValueError (''tiles-x must be between 1 and 20, got '' @ str_int (tiles_x a)))
      else if \<not> (1 \<le> tiles_y a \<and> tiles_y a \<le> 20) then
        Inl (ValueError (''tiles-y must be between 1 and 20, got '' @ str_int (tiles_y a)))
      else if \<not> (float_le (Finite 0.0) (overlap_x a) \<and> float_le (overlap_x a) (Finite 1.0)) then
        Inl (ValueError (''overlap-x must be between 0.0 and 1.0, got ''
                          @ float_repr fm (overlap_x a)))
      else if \<not> (float_le (Finite 0.0) (overlap_y a) \<and> float_le (overlap_y a) (Finite 1.0)) then
        Inl (ValueError (''overlap-y must be between 0.0 and 1.0, got ''
                          @ float_repr fm (overlap_y a)))
      else if tiling_mode a \<notin> set [0, 1] then
        Inl (ValueError (''tiling-mode must be 0 or 1, got '' @ str_int (tiling_mode a)))
      else if \<not> (float_le (Finite 0.0) (iou_threshold a)
                  \<and> float_le (iou_threshold a) (Finite 1.0)) then
        Inl (ValueError (''iou-threshold must be between 0.0 and 1.0, got ''
                          @ float_repr fm (iou_threshold a)))
      else if \<not> (float_le (Finite 0.0) (border_threshold a)
                  \<and> float_le (border_threshold a) (Finite 1.0)) then
        Inl (ValueError (''border-threshold must be between 0.0 and 1.0, got ''
                          @ float_repr fm (border_threshold a)))
      else Inr ())"

text \<open>
  The specification's side of the comparison: a value is a real number of the closed
  interval from 0 to 1.
\<close>

definition in_unit_interval :: "pyfloat \<Rightarrow> bool" where
  "in_unit_interval x = (case x of Finite r \<Rightarrow> 0 \<le> r \<and> r \<le> 1 | _ \<Rightarrow> False)"

text \<open>The arguments of a command line that gives the two required options only.\<close>

definition example_cli :: tiling_cli where
  "example_cli =
     \<lparr> cli_help = False, cli_input = Some ''in.mp4'', cli_output = Some ''out/result.mp4'',
       cli_hef = None, cli_postprocess_so = None, cli_bitrate = None, cli_debug = False,
       cli_tiles_x = None, cli_tiles_y = None, cli_overlap_x = None, cli_overlap_y = None,
       cli_tiling_mode = None, cli_tile_width = None, cli_tile_height = None,
       cli_iou_threshold = None, cli_border_threshold = None,
       cli_remove_large_landscape = False \<rparr>"

definition example_args :: tiling_args where
  "example_args =
     \<lparr> input_path = ''in.mp4'', output_path = ''out/result.mp4'',
       hef = DEFAULT_HEF_PATH, postprocess_so = DEFAULT_POSTPROCESS_SO,
       bitrate = BITRATE, debug = False,
       tiles_x = TILES_X, tiles_y = TILES_Y, overlap_x = OVERLAP_X, overlap_y = OVERLAP_Y,
       tiling_mode = TILING_MODE, tile_width = TILE_WIDTH, tile_height = TILE_HEIGHT,
       iou_threshold = IOU_THRESHOLD, border_threshold = BORDER_THRESHOLD,
       remove_large_landscape = REMOVE_LARGE_LANDSCAPE \<rparr>"

section \<open>Paths and the file system\<close>

text \<open>
  \<^verbatim>\<open>pathlib.Path\<close> on POSIX: a path is its root (empty for a relative path, \<^verbatim>\<open>/\<close>, or
  \<^verbatim>\<open>//\<close> when the text starts with exactly two slashes) and its components; empty
  components and \<^verbatim>\<open>.\<close> components are dropped when the text is parsed, \<^verbatim>\<open>..\<close> is kept.
\<close>

type_synonym path = "string \<times> string list"

fun split_slash_aux :: "string \<Rightarrow> string \<Rightarrow> string list" where
  "split_slash_aux w [] = [w]"
| "split_slash_aux w (c # cs) =
     (if c = CHR ''/'' then w # split_slash_aux [] cs else split_slash_aux (w @ [c]) cs)"

definition path_root :: "string \<Rightarrow> string" where
  "path_root s =
     (if take 2 s = ''//'' \<and> take 3 s \<noteq> ''///'' then ''//''
      else if take 1 s = ''/'' then ''/''
      else [])"

definition Path :: "string \<Rightarrow> path" where
  "Path s = (path_root s, filter (\<lambda>p. p \<noteq> [] \<and> p \<noteq> ''.'') (split_slash_aux [] s))"

text \<open>\<^verbatim>\<open>Path.parent\<close>: the path without its last component; the parent of a bare root or of
  \<^verbatim>\<open>.\<close> is the path itself.\<close>

definition parent :: "path \<Rightarrow> path" where
  "parent p = (fst p, butlast (snd p))"

text \<open>\<^verbatim>\<open>str(path)\<close>.\<close>

fun join_slash :: "string list \<Rightarrow> string" where
  "join_slash [] = []"
| "join_slash [x] = x"
| "join_slash (x # y # ys) = x @ ''/'' @ join_slash (y # ys)"

definition path_str :: "path \<Rightarrow> string" where
  "path_str p = (if fst p = [] \<and> snd p = [] then ''.'' else fst p @ join_slash (snd p))"

text \<open>
  The file system: what stands at each path, a regular file or a directory. Paths are
  taken as written (no symbolic links, no resolution of \<^verbatim>\<open>..\<close>, no permissions). The
  root directory and the working directory, the paths with no component, always exist.
\<close>

datatype node = File | Dir

type_synonym filesystem = "path \<Rightarrow> node option"

definition stat :: "filesystem \<Rightarrow> path \<Rightarrow> node option" where
  "stat fs p = (if snd p = [] then Some Dir else fs p)"

text \<open>\<^verbatim>\<open>Path.exists()\<close> and \<^verbatim>\<open>Path.is_dir()\<close>.\<close>

definition path_exists :: "filesystem \<Rightarrow> path \<Rightarrow> bool" where
  "path_exists fs p = (stat fs p \<noteq> None)"

definition is_dir :: "filesystem \<Rightarrow> path \<Rightarrow> bool" where
  "is_dir fs p = (stat fs p = Some Dir)"

text \<open>
  \<^verbatim>\<open>os.mkdir(path)\<close>: \<^verbatim>\<open>FileExistsError\<close> when something stands at the path,
  \<^verbatim>\<open>FileNotFoundError\<close> when its parent is missing, \<^verbatim>\<open>NotADirectoryError\<close> when its parent
  is a regular file; otherwise the directory is created. The result is the exception
  raised, if any, and the file system afterwards. The message of such an exception is
  the path alone (the operating system's wording is left out).
\<close>

definition os_mkdir :: "filesystem \<Rightarrow> path \<Rightarrow> (exception + unit) \<times> filesystem" where
  "os_mkdir fs p =
     (if stat fs p \<noteq> None then (Inl (FileExistsError (path_str p)), fs)
      else case stat fs (parent p) of
        None \<Rightarrow> (Inl (FileNotFoundError (path_str p)), fs)
      | Some File \<Rightarrow> (Inl (NotADirectoryError (path_str p)), fs)
      | Some Dir \<Rightarrow> (Inr (), fs(p \<mapsto> Dir)))"

text \<open>
  \<^verbatim>\<open>Path.mkdir(parents, exist_ok)\<close> as \<^verbatim>\<open>pathlib\<close> implements it: try \<^verbatim>\<open>os.mkdir\<close>; on
  \<^verbatim>\<open>FileNotFoundError\<close>, with \<^verbatim>\<open>parents\<close> set and a parent other than the path itself,
  make the parent (\<^verbatim>\<open>parents=True, exist_ok=True\<close>) and then the path
  (\<^verbatim>\<open>parents=False\<close>); on any other \<^verbatim>\<open>OSError\<close>, re-raise unless \<^verbatim>\<open>exist_ok\<close> is set and
  the path is a directory.
\<close>

function mkdir :: "bool \<Rightarrow> bool \<Rightarrow> filesystem \<Rightarrow> path \<Rightarrow> (exception + unit) \<times> filesystem" where
  "mkdir parents exist_ok fs p =
     (case os_mkdir fs p of
        (Inr u, fs') \<Rightarrow> (Inr (), fs')
      | (Inl (FileNotFoundError m), fs') \<Rightarrow>
          if \<not> parents \<or> parent p = p then (Inl (FileNotFoundError m), fs')
          else (case mkdir True True fs' (parent p) of
                  (Inl e, fs'') \<Rightarrow> (Inl e, fs'')
                | (Inr u, fs'') \<Rightarrow> mkdir False exist_ok fs'' p)
      | (Inl e, fs') \<Rightarrow>
          if \<not> exist_ok \<or> \<not> is_dir fs' p then (Inl e, fs') else (Inr (), fs'))"
  by pat_completeness auto
termination
proof (relation "measure (\<lambda>(parents, exist_ok, fs, p). 2 * length (snd p) + (if parents then 1 else 0))")
  show "wf (measure (\<lambda>(parents, exist_ok, fs, p). 2 * length (snd p) + (if parents then 1 else 0)))"
    by simp
next
  fix parents exist_ok :: bool and fs :: filesystem and p :: path
    and x :: "(exception + unit) \<times> filesystem" and x1 :: "exception + unit"
    and x2 :: filesystem and  a :: exception and x1a :: string
  assume "\<not> (\<not> parents \<or> parent p = p)"
  then have "snd p \<noteq> []"
    by (cases p) (auto simp: parent_def)
  then show "((True, True, x2, parent p), parents, exist_ok, fs, p)
       \<in> measure (\<lambda>(parents, exist_ok, fs, p). 2 * length (snd p) + (if parents then 1 else 0))"
    by (cases "snd p" rule: rev_cases) (auto simp: parent_def)
next
  fix parents exist_ok :: bool and fs :: filesystem and p :: path
    and x2 :: filesystem and x2b :: filesystem
  assume "\<not> (\<not> parents \<or> parent p = p)"
  then show "((False, exist_ok, x2b, p), parents, exist_ok, fs, p)
       \<in> measure (\<lambda>(parents, exist_ok, fs, p). 2 * length (snd p) + (if parents then 1 else 0))"
    by simp
qed

declare mkdir.simps [simp del]

text \<open>
  \<^verbatim>\<open>_validate_paths\<close>, the same text in both scripts: three existence checks, then the
  output file's directory is created unless it is \<^verbatim>\<open>Path('.')\<close>. An exception of
  \<^verbatim>\<open>mkdir\<close> propagates.
\<close>

definition validate_paths ::
  "'a common_args_scheme \<Rightarrow> filesystem \<Rightarrow> (exception + unit) \<times> filesystem" where
  "validate_paths a fs =
     (if \<not> path_exists fs (Path (input_path a)) then
        (Inl (FileNotFoundError (''Input file not found: '' @ input_path a)), fs)
      else if \<not> path_exists fs (Path (hef a)) then
        (Inl (FileNotFoundError (''HEF file not found: '' @ hef a)), fs)
      else if \<not> path_exists fs (Path (postprocess_so a)) then
        (Inl (FileNotFoundError (''Postprocess .so not found: '' @ postprocess_so a)), fs)
      else
        let output_dir = parent (Path (output_path a)) in
        if output_dir \<noteq> Path ''.'' then mkdir True True fs output_dir
        else (Inr (), fs))"

text \<open>
  The constructors. \<^verbatim>\<open>TilingResolutionPreservingPipeline.__init__\<close> validates the paths
  and then the parameters; \<^verbatim>\<open>ResolutionPreservingPipeline.__init__\<close> validates the paths
  only.
\<close>

definition tiling_init ::
  "py_format \<Rightarrow> tiling_args \<Rightarrow> filesystem \<Rightarrow> (exception + unit) \<times> filesystem" where
  "tiling_init fm a fs =
     (case validate_paths a fs of
        (Inl e, fs') \<Rightarrow> (Inl e, fs')
      | (Inr u, fs') \<Rightarrow> (validate_parameters fm a, fs'))"

definition preserve_init ::
  "preserve_args \<Rightarrow> filesystem \<Rightarrow> (exception + unit) \<times> filesystem" where
  "preserve_init a fs = validate_paths a fs"

section \<open>Graph descriptions\<close>

text \<open>
  \<^verbatim>\<open>str.split()\<close> with no argument: the maximal runs of characters that are not white
  space (the white space below code point 256), and \<^verbatim>\<open>sep.join(words)\<close>.
\<close>

definition is_space :: "char \<Rightarrow> bool" where
  "is_space c \<longleftrightarrow> c \<in> set [CHR 0x09, CHR 0x0A, CHR 0x0B, CHR 0x0C, CHR 0x0D,
                            CHR 0x1C, CHR 0x1D, CHR 0x1E, CHR 0x1F, CHR 0x20, CHR 0x85, CHR 0xA0]"

fun py_split_aux :: "string \<Rightarrow> string \<Rightarrow> string list" where
  "py_split_aux w [] = (if w = [] then [] else [w])"
| "py_split_aux w (c # cs) =
     (if is_space c then (if w = [] then [] else [w]) @ py_split_aux [] cs
      else py_split_aux (w @ [c]) cs)"

definition py_split :: "string \<Rightarrow> string list" where
  "py_split s = py_split_aux [] s"

fun py_join :: "string \<Rightarrow> string list \<Rightarrow> string" where
  "py_join sep [] = []"
| "py_join sep [x] = x"
| "py_join sep (x # y # ys) = x @ sep @ py_join sep (y # ys)"

text \<open>\<^verbatim>\<open>s.replace(" ! ", " !\n    ")\<close>, used for the debug listing.\<close>

fun replace_links :: "string \<Rightarrow> string" where
  "replace_links (a # b # c # cs) =
     (if a = CHR '' '' \<and> b = CHR ''!'' \<and> c = CHR '' ''
      then '' !\<newline>    '' @ replace_links cs
      else a # replace_links (b # c # cs))"
| "replace_links cs = cs"

text \<open>A triple-quoted text: every line of it preceded by a line break.\<close>

definition text_lines :: "string list \<Rightarrow> string" where
  "text_lines ls = concat (map (\<lambda>l. ''\<newline>'' @ l) ls)"

text \<open>The f-string of \<^verbatim>\<open>TilingResolutionPreservingPipeline.build_pipeline\<close>.\<close>

definition queue_line :: string where
  "queue_line =
     ''            queue leaky=no max-size-buffers=30 max-size-bytes=0 max-size-time=0 !''"

definition tiling_pipeline_text :: "py_format \<Rightarrow> tiling_args \<Rightarrow> string" where
  "tiling_pipeline_text fm a = text_lines
     [''            filesrc location=\"'' @ input_path a @ ''\" !'',
      ''            qtdemux !'',
      ''            h264parse !'',
      ''            avdec_h264 !'',
      ''            videoconvert !'',
      ''            video/x-raw,format=RGB !'',
      ''            hailotilecropper name=cropper'',
      ''                tiles-along-x-axis='' @ str_int (tiles_x a),
      ''                tiles-along-y-axis='' @ str_int (tiles_y a),
      ''                overlap-x-axis='' @ float_repr fm (overlap_x a),
      ''                overlap-y-axis='' @ float_repr fm (overlap_y a),
      ''                tiling-mode='' @ str_int (tiling_mode a),
      ''            '',
      ''            hailotileaggregator name=aggregator'',
      ''                flatten-detections=true'',
      ''                iou-threshold='' @ float_repr fm (iou_threshold a),
      ''                border-threshold='' @ float_repr fm (border_threshold a),
      ''                remove-large-landscape='' @ str_bool_lower (remove_large_landscape a),
      ''            '',
      ''            cropper.src_0 !'',
      queue_line,
      ''            aggregator.sink_0'',
      ''            '',
      ''            cropper.src_1 !'',
      queue_line,
      ''            videoscale !'',
      ''            video/x-raw,width='' @ str_int (tile_width a) @ '',height=''
         @ str_int (tile_height a) @ '' !'',
      queue_line,
      ''            hailonet hef-path='' @ hef a @ '' is-active=true !'',
      queue_line,
      ''            hailofilter so-path='' @ postprocess_so a @ '' qos=false !'',
      queue_line,
      ''            aggregator.sink_1'',
      ''            '',
      ''            aggregator.src !'',
      queue_line,
      ''            hailooverlay !'',
      queue_line,
      ''            videoconvert !'',
      ''            x264enc bitrate='' @ str_int (bitrate a) @ '' speed-preset='' @ ENCODING_PRESET
         @ '' tune=zerolatency key-int-max=60 !'',
      ''            h264parse !'',
      ''            mp4mux !'',
      ''            filesink location=\"'' @ output_path a @ ''\" sync=false'',
      ''        '']"

text \<open>The f-string of \<^verbatim>\<open>ResolutionPreservingPipeline.build_pipeline\<close>.\<close>

definition nms_params :: "py_format \<Rightarrow> string" where
  "nms_params fm =
     ''nms-score-threshold='' @ float_repr fm NMS_SCORE_THRESHOLD @ '' ''
     @ ''nms-iou-threshold='' @ float_repr fm NMS_IOU_THRESHOLD @ '' ''
     @ ''output-format-type=HAILO_FORMAT_TYPE_FLOAT32''"

definition preserve_pipeline_text :: "py_format \<Rightarrow> preserve_args \<Rightarrow> string" where
  "preserve_pipeline_text fm a = text_lines
     [''            filesrc location=\"'' @ input_path a @ ''\" !'',
      ''            qtdemux !'',
      ''            h264parse !'',
      ''            avdec_h264 !'',
      ''            videoconvert !'',
      ''            tee name=t'',
      ''            '',
      ''            hailomuxer name=mux'',
      ''            '',
      ''            t. ! '',
      queue_line,
      ''            mux.'',
      ''            '',
      ''            t. !'',
      ''            videoscale !'',
      ''            video/x-raw,width='' @ str_int (inference_width a) @ '',height=''
         @ str_int (inference_height a) @ '' !'',
      queue_line,
      ''            hailonet hef-path='' @ hef a @ '' is-active=true '' @ nms_params fm @ '' !'',
      queue_line,
      ''            hailofilter so-path='' @ postprocess_so a @ '' qos=false !'',
      ''            mux.'',
      ''            '',
      ''            mux. !'',
      queue_line,
      ''            hailooverlay !'',
      queue_line,
      ''            videoconvert !'',
      ''            x264enc bitrate='' @ str_int (bitrate a) @ '' speed-preset='' @ ENCODING_PRESET
         @ '' tune=zerolatency key-int-max=60 !'',
      ''            h264parse !'',
      ''            mp4mux !'',
      ''            filesink location=\"'' @ output_path a @ ''\" sync=false'',
      ''        '']"

section \<open>The controller\<close>

text \<open>
  What the scripts use of GStreamer and GLib. A bus message is its type with the parts
  the handler reads: the error or warning text and the optional debug text, whether a
  state change comes from the pipeline itself with the nicks of the old and new state,
  the printed stream status.
\<close>

datatype gst_state = PLAYING | NULL

datatype state_change_return = FAILURE | SUCCESS | ASYNC | NO_PREROLL

datatype message =
    ERROR string "string option"
  | EOS
  | WARNING string "string option"
  | STATE_CHANGED bool string string
  | STREAM_STATUS string
  | OTHER_MESSAGE

text \<open>
  What the main loop delivers while it runs: a bus message (dispatched to
  \<^verbatim>\<open>on_message\<close>), a buffer passing the probed pad (\<^verbatim>\<open>on_buffer_probe\<close>, when the probe
  was attached), or the interrupt signal, on which \<^verbatim>\<open>loop.run()\<close> raises
  \<^verbatim>\<open>KeyboardInterrupt\<close>. Outside \<^verbatim>\<open>loop.run()\<close> the interrupt is represented where the
  graph is built (\<open>parse_launch\<close> below), and nowhere else.
\<close>

datatype event = Bus message | Buffer | Sigint

text \<open>
  The behaviour of the GStreamer installation for one run: what \<^verbatim>\<open>Gst.parse_launch\<close>
  does with a description (raises, is left by the \<^verbatim>\<open>KeyboardInterrupt\<close> of an interrupt
  that arrives while it runs, or yields a pipeline), whether the pipeline has an
  element and the element a pad of a given name, what \<^verbatim>\<open>set_state(PLAYING)\<close> returns,
  and the events that follow.
\<close>

record gst =
  parse_launch :: "string \<Rightarrow> raised + unit"
  get_by_name :: "string \<Rightarrow> bool"
  get_static_pad :: "string \<Rightarrow> bool"
  set_state_playing :: state_change_return
  events :: "event list"

text \<open>
  The controller object (\<^verbatim>\<open>frame_count\<close>, and whether \<^verbatim>\<open>pipeline\<close> and \<^verbatim>\<open>loop\<close> are
  set), together with what the process has done so far: whether \<^verbatim>\<open>loop.quit()\<close> was
  called, whether the buffer probe is attached, the states requested with
  \<^verbatim>\<open>pipeline.set_state\<close> in order, and the texts written to standard output, one per
  \<^verbatim>\<open>print\<close> call.
\<close>

record state =
  frame_count :: int
  pipeline_set :: bool
  loop_set :: bool
  quit_called :: bool
  probe_attached :: bool
  set_state_calls :: "gst_state list"
  stdout :: "string list"

definition new_controller :: state where
  "new_controller =
     \<lparr> frame_count = 0, pipeline_set = False, loop_set = False, quit_called = False,
       probe_attached = False, set_state_calls = [], stdout = [] \<rparr>"

definition print_end :: "string \<Rightarrow> string \<Rightarrow> state \<Rightarrow> state" where
  "print_end s e st = st\<lparr>stdout := stdout st @ [s @ e]\<rparr>"

definition print :: "string \<Rightarrow> state \<Rightarrow> state" where
  "print s st = print_end s ''\<newline>'' st"

definition set_state :: "gst_state \<Rightarrow> state \<Rightarrow> state" where
  "set_state g st = st\<lparr>set_state_calls := set_state_calls st @ [g]\<rparr>"

text \<open>\<^verbatim>\<open>if self.loop: self.loop.quit()\<close>.\<close>

definition quit_loop :: "state \<Rightarrow> state" where
  "quit_loop st = (if loop_set st then st\<lparr>quit_called := True\<rparr> else st)"

text \<open>\<^verbatim>\<open>if debug and self.args.debug: print(f"[DEBUG] {debug}")\<close>; an empty text is false.\<close>

definition print_debug :: "bool \<Rightarrow> string option \<Rightarrow> state \<Rightarrow> state" where
  "print_debug dbg_flag d st =
     (case d of
        None \<Rightarrow> st
      | Some t \<Rightarrow> if t \<noteq> [] \<and> dbg_flag then print (''[DEBUG] '' @ t) st else st)"

text \<open>
  \<^verbatim>\<open>on_message\<close>, the same text in both scripts. It always returns \<^verbatim>\<open>True\<close> (the handler
  stays connected); the model returns the state.
\<close>

definition on_message :: "'a common_args_scheme \<Rightarrow> message \<Rightarrow> state \<Rightarrow> state" where
  "on_message a m st =
     (case m of
        ERROR err d \<Rightarrow>
          quit_loop (print_debug (debug a) d (print (''\<newline>[ERROR] '' @ err) st))
      | EOS \<Rightarrow>
          quit_loop (print (''\<newline>[EOS] Processing complete. Processed ''
                            @ str_int (frame_count st) @ '' frames.'') st)
      | WARNING warn d \<Rightarrow>
          print_debug (debug a) d (print (''[WARNING] '' @ warn) st)
      | STATE_CHANGED from_pipeline old_nick new_nick \<Rightarrow>
          if from_pipeline then
            (if debug a then print (''[STATE] '' @ old_nick @ '' -> '' @ new_nick) st else st)
          else st
      | STREAM_STATUS status \<Rightarrow>
          if debug a then print (''[STREAM_STATUS] '' @ status) st else st
      | OTHER_MESSAGE \<Rightarrow> st)"

text \<open>
  \<^verbatim>\<open>on_buffer_probe\<close>: the tiling script reports every 50 frames, the
  resolution-preserving script every 100.
\<close>

definition on_buffer_probe :: "int \<Rightarrow> state \<Rightarrow> state" where
  "on_buffer_probe every st =
     (let st1 = st\<lparr>frame_count := frame_count st + 1\<rparr> in
      if frame_count st1 mod every = 0
      then print_end (''[PROGRESS] Processed '' @ str_int (frame_count st1) @ '' frames...'')
             [CHR 0x0D] st1
      else st1)"

definition tiling_on_buffer_probe :: "state \<Rightarrow> state" where
  "tiling_on_buffer_probe = on_buffer_probe 50"

definition preserve_on_buffer_probe :: "state \<Rightarrow> state" where
  "preserve_on_buffer_probe = on_buffer_probe 100"

text \<open>
  \<^verbatim>\<open>loop.run()\<close>: events are dispatched in order until a handler has called
  \<^verbatim>\<open>loop.quit()\<close> (the loop returns) or the interrupt arrives (\<^verbatim>\<open>KeyboardInterrupt\<close>).
  When the events end before either, the loop keeps waiting: it never returns, which is
  \<open>None\<close>.
\<close>

datatype loop_exit = Returned | Interrupted

fun loop_run ::
  "(message \<Rightarrow> state \<Rightarrow> state) \<Rightarrow> (state \<Rightarrow> state) \<Rightarrow> event list \<Rightarrow> state
     \<Rightarrow> (loop_exit \<times> state) option" where
  "loop_run handler probe [] st = None"
| "loop_run handler probe (Sigint # es) st = Some (Interrupted, st)"
| "loop_run handler probe (Buffer # es) st =
     loop_run handler probe es (if probe_attached st then probe st else st)"
| "loop_run handler probe (Bus m # es) st =
     (let st' = handler m st in
      if quit_called st' then Some (Returned, st') else loop_run handler probe es st')"

text \<open>
  \<^verbatim>\<open>build_pipeline\<close>: the description, which is the f-string with its white space
  normalised (\<^verbatim>\<open>" ".join(pipeline_str.split())\<close>), and the debug listing when
  \<^verbatim>\<open>--debug\<close> is set.
\<close>

definition print_description :: "string \<Rightarrow> string \<Rightarrow> state \<Rightarrow> state" where
  "print_description title pipeline_str st =
     print []
       (print (replicate 80 CHR ''-'')
         (print (replace_links pipeline_str)
           (print (replicate 80 CHR ''-'')
             (print title st))))"

definition tiling_description :: "py_format \<Rightarrow> tiling_args \<Rightarrow> string" where
  "tiling_description fm a = py_join '' '' (py_split (tiling_pipeline_text fm a))"

definition tiling_build_pipeline ::
  "py_format \<Rightarrow> tiling_args \<Rightarrow> state \<Rightarrow> string \<times> state" where
  "tiling_build_pipeline fm a st =
     (let pipeline_str = tiling_description fm a in
      (pipeline_str,
       if debug a
       then print_description ''\<newline>[DEBUG] GStreamer Tiling Pipeline:'' pipeline_str st
       else st))"

definition preserve_description :: "py_format \<Rightarrow> preserve_args \<Rightarrow> string" where
  "preserve_description fm a = py_join '' '' (py_split (preserve_pipeline_text fm a))"

definition preserve_build_pipeline ::
  "py_format \<Rightarrow> preserve_args \<Rightarrow> state \<Rightarrow> string \<times> state" where
  "preserve_build_pipeline fm a st =
     (let pipeline_str = preserve_description fm a in
      (pipeline_str,
       if debug a
       then print_description ''\<newline>[DEBUG] GStreamer Pipeline:'' pipeline_str st
       else st))"

text \<open>A sequence of \<^verbatim>\<open>print\<close> calls.\<close>

definition print_all :: "string list \<Rightarrow> state \<Rightarrow> state" where
  "print_all ls st = fold print ls st"

definition str_bool :: "bool \<Rightarrow> string" where
  "str_bool b = (if b then ''True'' else ''False'')"

text \<open>The lines \<^verbatim>\<open>run\<close> prints first, in the tiling script.\<close>

definition tiling_banner :: "py_format \<Rightarrow> tiling_args \<Rightarrow> string list" where
  "tiling_banner fm a =
     [''\<newline>'' @ replicate 80 CHR ''='',
      ''Tiling Resolution-Preserving Hailo Detection Pipeline'',
      replicate 80 CHR ''='',
      ''Input:              '' @ input_path a,
      ''Output:             '' @ output_path a,
      ''HEF:                '' @ hef a,
      ''Postprocess:        '' @ postprocess_so a,
      replicate 80 CHR ''-'',
      ''Tiling grid:        '' @ str_int (tiles_x a) @ '' x '' @ str_int (tiles_y a),
      ''Tile overlap:       X='' @ float_percent1 fm (overlap_x a)
         @ '', Y='' @ float_percent1 fm (overlap_y a),
      ''Tiling mode:        '' @ (if tiling_mode a = 0 then ''Single-scale'' else ''Multi-scale''),
      ''Tile process size:  '' @ str_int (tile_width a) @ ''x'' @ str_int (tile_height a),
      replicate 80 CHR ''-'',
      ''IOU threshold:      '' @ float_repr fm (iou_threshold a),
      ''Border threshold:   '' @ float_repr fm (border_threshold a),
      ''Remove large:       '' @ str_bool (remove_large_landscape a),
      ''Output bitrate:     '' @ str_int (bitrate a) @ '' kbps'',
      replicate 80 CHR ''='',
      []]"

text \<open>The same, in the resolution-preserving script.\<close>

definition preserve_banner :: "preserve_args \<Rightarrow> string list" where
  "preserve_banner a =
     [''\<newline>'' @ replicate 80 CHR ''='',
      ''Resolution-Preserving Hailo Detection Pipeline'',
      replicate 80 CHR ''='',
      ''Input:            '' @ input_path a,
      ''Output:           '' @ output_path a,
      ''HEF:              '' @ hef a,
      ''Postprocess:      '' @ postprocess_so a,
      ''Inference size:   '' @ str_int (inference_width a) @ ''x'' @ str_int (inference_height a),
      ''Output bitrate:   '' @ str_int (bitrate a) @ '' kbps'',
      replicate 80 CHR ''='',
      []]"

text \<open>
  The \<^verbatim>\<open>finally\<close> block of \<^verbatim>\<open>run\<close>: the pipeline is set to \<^verbatim>\<open>NULL\<close>, which tears the graph
  down, and the output file and the frame counter are reported; the tiling script adds
  the number of tiles per frame.
\<close>

definition tiling_finally :: "tiling_args \<Rightarrow> state \<Rightarrow> state" where
  "tiling_finally a st =
     print (''[DONE] Tiles per frame: '' @ str_int (tiles_x a * tiles_y a) @ ''\<newline>'')
       (print (''[DONE] Total frames processed: '' @ str_int (frame_count st))
         (print (''\<newline>[DONE] Output saved to: '' @ output_path a)
           (set_state NULL st)))"

definition preserve_finally :: "preserve_args \<Rightarrow> state \<Rightarrow> state" where
  "preserve_finally a st =
     print (''[DONE] Total frames processed: '' @ str_int (frame_count st) @ ''\<newline>'')
       (print (''\<newline>[DONE] Output saved to: '' @ output_path a)
         (set_state NULL st))"

text \<open>
  The part of \<^verbatim>\<open>run\<close> after the pipeline object exists, which the two scripts share but
  for the name of the probed element, the start line, the probe and the \<^verbatim>\<open>finally\<close>
  block: attach the probe when the element and its \<^verbatim>\<open>src\<close> pad are found, create the
  main loop, request \<^verbatim>\<open>PLAYING\<close> (return 1 on \<^verbatim>\<open>FAILURE\<close>), run the loop, catch
  \<^verbatim>\<open>KeyboardInterrupt\<close>, run the \<^verbatim>\<open>finally\<close> block, return 0. The result is \<open>None\<close> when
  the loop never returns.
\<close>

definition start_and_run ::
  "gst \<Rightarrow> 'a common_args_scheme \<Rightarrow> string \<Rightarrow> string \<Rightarrow> (state \<Rightarrow> state) \<Rightarrow> (state \<Rightarrow> state)
     \<Rightarrow> state \<Rightarrow> (int \<times> state) option" where
  "start_and_run g a element start_line probe final st =
     (let st1 = st\<lparr>pipeline_set := True\<rparr>;
          st2 = (if get_by_name g element
                 then (if get_static_pad g ''src'' then st1\<lparr>probe_attached := True\<rparr> else st1)
                 else st1);
          st3 = st2\<lparr>loop_set := True\<rparr>;
          st4 = set_state PLAYING (print start_line st3)
      in if set_state_playing g = FAILURE
         then Some (1, print ''[ERROR] Unable to set pipeline to PLAYING state'' st4)
         else (case loop_run (on_message a) probe (events g) st4 of
                 None \<Rightarrow> None
               | Some (Returned, st5) \<Rightarrow> Some (0, final st5)
               | Some (Interrupted, st5) \<Rightarrow>
                   Some (0, final (print ''\<newline>[INTERRUPTED] Stopping pipeline...'' st5))))"

text \<open>
  \<^verbatim>\<open>TilingResolutionPreservingPipeline.run\<close>. A \<^verbatim>\<open>GLib.Error\<close> of \<^verbatim>\<open>Gst.parse_launch\<close> is
  caught (return 1); whatever else leaves \<^verbatim>\<open>Gst.parse_launch\<close> propagates to the caller.
\<close>

definition tiling_run ::
  "py_format \<Rightarrow> gst \<Rightarrow> tiling_args \<Rightarrow> state \<Rightarrow> ((raised + int) \<times> state) option" where
  "tiling_run fm g a st =
     (case tiling_build_pipeline fm a (print_all (tiling_banner fm a) st) of
        (pipeline_str, st1) \<Rightarrow>
          (case parse_launch g pipeline_str of
             Inl (Exception (GLib_Error e)) \<Rightarrow>
               Some (Inr 1, print (''[ERROR] Failed to create pipeline: '' @ e) st1)
           | Inl r \<Rightarrow> Some (Inl r, st1)
           | Inr u \<Rightarrow>
               map_option (\<lambda>(code, st2). (Inr code, st2))
                 (start_and_run g a ''aggregator'' ''[START] Starting tiling pipeline...\<newline>''
                    tiling_on_buffer_probe (tiling_finally a) st1)))"

text \<open>\<^verbatim>\<open>ResolutionPreservingPipeline.run\<close>.\<close>

definition preserve_run ::
  "py_format \<Rightarrow> gst \<Rightarrow> preserve_args \<Rightarrow> state \<Rightarrow> ((raised + int) \<times> state) option" where
  "preserve_run fm g a st =
     (case preserve_build_pipeline fm a (print_all (preserve_banner a) st) of
        (pipeline_str, st1) \<Rightarrow>
          (case parse_launch g pipeline_str of
             Inl (Exception (GLib_Error e)) \<Rightarrow>
               Some (Inr 1, print (''[ERROR] Failed to create pipeline: '' @ e) st1)
           | Inl r \<Rightarrow> Some (Inl r, st1)
           | Inr u \<Rightarrow>
               map_option (\<lambda>(code, st2). (Inr code, st2))
                 (start_and_run g a ''mux'' ''[START] Starting pipeline...\<newline>''
                    preserve_on_buffer_probe (preserve_finally a) st1)))"

section \<open>The entry points\<close>

text \<open>\<^verbatim>\<open>str(e)\<close> of an exception: its message.\<close>

fun str_exception :: "exception \<Rightarrow> string" where
  "str_exception (FileNotFoundError m) = m"
| "str_exception (ValueError m) = m"
| "str_exception (GLib_Error m) = m"
| "str_exception (FileExistsError m) = m"
| "str_exception (NotADirectoryError m) = m"
| "str_exception (Other_Exception m) = m"

text \<open>
  The \<^verbatim>\<open>except\<close> clauses of the two \<^verbatim>\<open>main\<close> functions; both return 1. The tiling script
  treats \<^verbatim>\<open>FileNotFoundError\<close> and \<^verbatim>\<open>ValueError\<close> as validation errors, the
  resolution-preserving script \<^verbatim>\<open>FileNotFoundError\<close> only. The traceback that
  \<^verbatim>\<open>--debug\<close> adds goes to standard error and is left out.
\<close>

definition unexpected_error :: "exception \<Rightarrow> state \<Rightarrow> state" where
  "unexpected_error e st = print (''\<newline>[ERROR] Unexpected error: '' @ str_exception e) st"

fun tiling_except :: "exception \<Rightarrow> state \<Rightarrow> state" where
  "tiling_except (FileNotFoundError m) st =
     print ''\<newline>Please check the parameters and try again.\<newline>''
       (print (''\<newline>[ERROR] '' @ m) st)"
| "tiling_except (ValueError m) st =
     print ''\<newline>Please check the parameters and try again.\<newline>''
       (print (''\<newline>[ERROR] '' @ m) st)"
| "tiling_except e st = unexpected_error e st"

fun preserve_except :: "exception \<Rightarrow> state \<Rightarrow> state" where
  "preserve_except (FileNotFoundError m) st =
     print ''\<newline>Please check the file paths and try again.\<newline>''
       (print (''\<newline>[ERROR] '' @ m) st)"
| "preserve_except e st = unexpected_error e st"

text \<open>
  \<^verbatim>\<open>main\<close> of the tiling script, from a command line and a file system: what it returns,
  or what passes through it because no \<^verbatim>\<open>except\<close> clause of \<^verbatim>\<open>main\<close> catches it (the
  \<^verbatim>\<open>SystemExit\<close> of \<^verbatim>\<open>argparse\<close>, the \<^verbatim>\<open>KeyboardInterrupt\<close> that left \<^verbatim>\<open>run\<close>: neither is an
  \<^verbatim>\<open>Exception\<close>), with the final state and file system; \<open>None\<close> when the main loop never
  returns.
\<close>

definition tiling_main ::
  "py_format \<Rightarrow> gst \<Rightarrow> tiling_cli \<Rightarrow> filesystem
     \<Rightarrow> ((raised + int) \<times> state \<times> filesystem) option" where
  "tiling_main fm g c fs =
     (case tiling_parse_args c of
        Inl r \<Rightarrow> Some (Inl r, new_controller, fs)
      | Inr a \<Rightarrow>
          (case tiling_init fm a fs of
             (Inl e, fs') \<Rightarrow> Some (Inr 1, tiling_except e new_controller, fs')
           | (Inr u, fs') \<Rightarrow>
               (case tiling_run fm g a new_controller of
                  None \<Rightarrow> None
                | Some (Inl (Exception e), st) \<Rightarrow> Some (Inr 1, tiling_except e st, fs')
                | Some (Inl r, st) \<Rightarrow> Some (Inl r, st, fs')
                | Some (Inr code, st) \<Rightarrow> Some (Inr code, st, fs'))))"

definition preserve_main ::
  "py_format \<Rightarrow> gst \<Rightarrow> preserve_cli \<Rightarrow> filesystem
     \<Rightarrow> ((raised + int) \<times> state \<times> filesystem) option" where
  "preserve_main fm g c fs =
     (case preserve_parse_args c of
        Inl r \<Rightarrow> Some (Inl r, new_controller, fs)
      | Inr a \<Rightarrow>
          (case preserve_init a fs of
             (Inl e, fs') \<Rightarrow> Some (Inr 1, preserve_except e new_controller, fs')
           | (Inr u, fs') \<Rightarrow>
               (case preserve_run fm g a new_controller of
                  None \<Rightarrow> None
                | Some (Inl (Exception e), st) \<Rightarrow> Some (Inr 1, preserve_except e st, fs')
                | Some (Inl r, st) \<Rightarrow> Some (Inl r, st, fs')
                | Some (Inr code, st) \<Rightarrow> Some (Inr code, st, fs'))))"

text \<open>
  \<^verbatim>\<open>sys.exit(main())\<close>: the exit status of the process is the value \<^verbatim>\<open>main\<close> returned, or
  the status of the \<^verbatim>\<open>SystemExit\<close> that left it. (An uncaught exception ends a Python
  process with status 1, an uncaught interrupt with the signal's status 130; \<^verbatim>\<open>main\<close>
  lets no exception through, and the interrupt only when it arrives outside
  \<^verbatim>\<open>loop.run()\<close>.)
\<close>

fun exit_status :: "raised + int \<Rightarrow> int" where
  "exit_status (Inr code) = code"
| "exit_status (Inl (SystemExit code)) = code"
| "exit_status (Inl (Exception e)) = 1"
| "exit_status (Inl KeyboardInterrupt) = 130"

text \<open>The exit status of a whole invocation; \<open>None\<close> when the process never ends.\<close>

definition tiling_exit :: "py_format \<Rightarrow> gst \<Rightarrow> tiling_cli \<Rightarrow> filesystem \<Rightarrow> int option" where
  "tiling_exit fm g c fs = map_option (\<lambda>(r, st, fs'). exit_status r) (tiling_main fm g c fs)"

definition preserve_exit :: "py_format \<Rightarrow> gst \<Rightarrow> preserve_cli \<Rightarrow> filesystem \<Rightarrow> int option" where
  "preserve_exit fm g c fs = map_option (\<lambda>(r, st, fs'). exit_status r) (preserve_main fm g c fs)"

section \<open>Reference definitions\<close>

text \<open>
  The specification's validator: every violated constraint, in the order of the
  checks, as the name of the parameter and the message of its check.
\<close>

definition constraint_failures :: "py_format \<Rightarrow> tiling_args \<Rightarrow> (string \<times> string) list" where
  "constraint_failures fm a =
     (if 1 \<le> tiles_x a \<and> tiles_x a \<le> 20 then []
      else [(''tiles-x'', ''tiles-x must be between 1 and 20, got '' @ str_int (tiles_x a))])
     @ (if 1 \<le> tiles_y a \<and> tiles_y a \<le> 20 then []
        else [(''tiles-y'', ''tiles-y must be between 1 and 20, got '' @ str_int (tiles_y a))])
     @ (if in_unit_interval (overlap_x a) then []
        else [(''overlap-x'', ''overlap-x must be between 0.0 and 1.0, got ''
                              @ float_repr fm (overlap_x a))])
     @ (if in_unit_interval (overlap_y a) then []
        else [(''overlap-y'', ''overlap-y must be between 0.0 and 1.0, got ''
                              @ float_repr fm (overlap_y a))])
     @ (if tiling_mode a = 0 \<or> tiling_mode a = 1 then []
        else [(''tiling-mode'', ''tiling-mode must be 0 or 1, got '' @ str_int (tiling_mode a))])
     @ (if in_unit_interval (iou_threshold a) then []
        else [(''iou-threshold'', ''iou-threshold must be between 0.0 and 1.0, got ''
                              @ float_repr fm (iou_threshold a))])
     @ (if in_unit_interval (border_threshold a) then []
        else [(''border-threshold'', ''border-threshold must be between 0.0 and 1.0, got ''
                              @ float_repr fm (border_threshold a))])"

text \<open>A failure result enumerates a list of parameters when its message names each.\<close>

definition enumerates_all :: "exception + unit \<Rightarrow> string list \<Rightarrow> bool" where
  "enumerates_all r names =
     (case r of
        Inl e \<Rightarrow> list_all (\<lambda>n. sublist n (str_exception e)) names
      | Inr u \<Rightarrow> False)"

text \<open>
  Events by kind: a warning message; an event that ends a run (end of stream, an error
  message, the interrupt).
\<close>

fun is_warning :: "event \<Rightarrow> bool" where
  "is_warning (Bus (WARNING w d)) = True"
| "is_warning e = False"

fun ends_run :: "event \<Rightarrow> bool" where
  "ends_run (Bus EOS) = True"
| "ends_run (Bus (ERROR e d)) = True"
| "ends_run Sigint = True"
| "ends_run e = False"

text \<open>
  A call that no interrupt cuts short: it returns, or it raises an \<^verbatim>\<open>Exception\<close>. A run
  that ends with the end of the stream: the first event that ends it is the
  end-of-stream message.
\<close>

fun uninterrupted :: "raised + unit \<Rightarrow> bool" where
  "uninterrupted (Inr u) = True"
| "uninterrupted (Inl (Exception e)) = True"
| "uninterrupted (Inl r) = False"

definition ends_with_eos :: "event list \<Rightarrow> bool" where
  "ends_with_eos es \<longleftrightarrow> find ends_run es = Some (Bus EOS)"

text \<open>The result of the main loop with the printed output left out.\<close>

definition without_output :: "(loop_exit \<times> state) option \<Rightarrow> (loop_exit \<times> state) option" where
  "without_output r = map_option (\<lambda>(x, st). (x, st\<lparr>stdout := []\<rparr>)) r"

text \<open>The state in which \<open>start_and_run\<close> enters the main loop.\<close>

definition started :: "gst \<Rightarrow> string \<Rightarrow> string \<Rightarrow> state \<Rightarrow> state" where
  "started g element start_line st =
     set_state PLAYING (print start_line
       ((if get_by_name g element \<and> get_static_pad g ''src''
         then st\<lparr>pipeline_set := True, probe_attached := True\<rparr>
         else st\<lparr>pipeline_set := True\<rparr>)\<lparr>loop_set := True\<rparr>))"

text \<open>
  What \<^verbatim>\<open>mkdir(parents=True, exist_ok=True)\<close> may do to the file system: whatever
  exists stays as it is, only the path and its ancestors can change, on success the path
  is a directory, and on failure nothing has changed.
\<close>

definition mkdir_ok :: "filesystem \<Rightarrow> path \<Rightarrow> (exception + unit) \<times> filesystem \<Rightarrow> bool" where
  "mkdir_ok fs p r \<longleftrightarrow>
     (\<forall>q. stat fs q \<noteq> None \<longrightarrow> stat (snd r) q = stat fs q)
     \<and> (\<forall>q. stat (snd r) q \<noteq> stat fs q \<longrightarrow> fst q = fst p \<and> prefix (snd q) (snd p))
     \<and> (fst r = Inr () \<longrightarrow> is_dir (snd r) p)
     \<and> (fst r \<noteq> Inr () \<longrightarrow> snd r = fs)"

text \<open>
  The words of a description, as \<^verbatim>\<open>gst-launch\<close> reads them. White space separates
  words, except inside a quoted value: a value that opens with a double quote right
  after the first \<^verbatim>\<open>=\<close> of its word runs to the closing quote, white space included.
  A backslash takes the character after it literally. The quotes stay part of the
  word. The reader is in one of four places: in the name of a word (\<open>Name\<close>), right
  after the first \<^verbatim>\<open>=\<close> (\<open>Value_start\<close>), in a value without quotes or after the
  closing quote (\<open>Bare\<close>), or inside the quotes (\<open>Quoted\<close>).
\<close>

datatype lexing = Name | Value_start | Bare | Quoted

fun gst_words_aux :: "lexing \<Rightarrow> bool \<Rightarrow> string \<Rightarrow> string \<Rightarrow> string list" where
  "gst_words_aux l esc w [] = (if w = [] then [] else [w])"
| "gst_words_aux l esc w (c # cs) =
     (if esc then gst_words_aux l False (w @ [c]) cs
      else if c = CHR 0x5C
        then gst_words_aux (if l = Value_start then Bare else l) True (w @ [c]) cs
      else if l = Quoted
        then gst_words_aux (if c = CHR 0x22 then Bare else Quoted) False (w @ [c]) cs
      else if is_space c then (if w = [] then [] else [w]) @ gst_words_aux Name False [] cs
      else if l = Name \<and> c = CHR ''=''
        then gst_words_aux Value_start False (w @ [c]) cs
      else if l = Value_start \<and> c = CHR 0x22
        then gst_words_aux Quoted False (w @ [c]) cs
      else gst_words_aux (if l = Value_start then Bare else l) False (w @ [c]) cs)"

definition gst_words :: "string \<Rightarrow> string list" where
  "gst_words s = gst_words_aux Name False [] s"

text \<open>
  An element is its name followed by its \<open>key=value\<close> settings up to the next link
  \<^verbatim>\<open>!\<close>. \<open>queues\<close> lists the settings of every \<^verbatim>\<open>queue\<close> element of a list of words;
  the value of a key is that of its last setting. A queue is bounded and
  non-discarding when it sets \<^verbatim>\<open>leaky=no\<close> and \<^verbatim>\<open>max-size-buffers=30\<close>.
\<close>

fun queues :: "string list \<Rightarrow> string list list" where
  "queues [] = []"
| "queues (t # ts) =
     (if t = ''queue'' then takeWhile (\<lambda>u. u \<noteq> ''!'') ts # queues ts else queues ts)"

definition setting :: "string \<Rightarrow> string list \<Rightarrow> string option" where
  "setting k props =
     (case filter (prefix (k @ ''='')) (rev props) of
        [] \<Rightarrow> None
      | t # ts \<Rightarrow> Some (drop (length k + 1) t))"

definition bounded_non_discarding :: "string list \<Rightarrow> bool" where
  "bounded_non_discarding props \<longleftrightarrow>
     setting ''leaky'' props = Some ''no'' \<and> setting ''max-size-buffers'' props = Some ''30''"

text \<open>
  Texts by their characters: without white space; without a double quote or a
  backslash; without any of them.
\<close>

definition no_space :: "string \<Rightarrow> bool" where
  "no_space s = list_all (\<lambda>c. \<not> is_space c) s"

definition unquoted :: "string \<Rightarrow> bool" where
  "unquoted s = list_all (\<lambda>c. c \<noteq> CHR 0x22 \<and> c \<noteq> CHR 0x5C) s"

definition plain :: "string \<Rightarrow> bool" where
  "plain s \<longleftrightarrow> no_space s \<and> unquoted s"

text \<open>The settings every queue of the two f-strings carries.\<close>

definition queue_settings :: "string list" where
  "queue_settings = [''leaky=no'', ''max-size-buffers=30'', ''max-size-bytes=0'', ''max-size-time=0'']"

section \<open>Example inputs\<close>

text \<open>A rendering of the floats the examples use.\<close>

definition example_format :: py_format where
  "example_format =
     \<lparr> float_repr = (\<lambda>x. if x = Finite 0.2 then ''0.2'' else if x = Finite 0.3 then ''0.3''
                          else if x = Finite 0.1 then ''0.1'' else if x = Finite 0.45 then ''0.45''
                          else ''nan''),
       float_percent1 = (\<lambda>x. if x = Finite 0.2 then ''20.0%'' else ''nan%'') \<rparr>"

text \<open>
  A GStreamer that accepts the description, finds the probed pad, starts, and delivers
  three buffers, a warning and the end of the stream.
\<close>

definition example_gst :: gst where
  "example_gst =
     \<lparr> parse_launch = (\<lambda>d. Inr ()), get_by_name = (\<lambda>n. True), get_static_pad = (\<lambda>n. True),
       set_state_playing = ASYNC,
       events = [Buffer, Buffer, Bus (WARNING ''late buffer'' None), Buffer, Bus EOS] \<rparr>"

text \<open>A file system with the input, the default model and library, and the directory \<^verbatim>\<open>out\<close>.\<close>

definition example_fs :: filesystem where
  "example_fs =
     [Path ''in.mp4'' \<mapsto> File, Path DEFAULT_HEF_PATH \<mapsto> File,
      Path DEFAULT_POSTPROCESS_SO \<mapsto> File, Path ''out'' \<mapsto> Dir]"

text \<open>A controller whose run has started, with the probe attached.\<close>

definition running_controller :: state where
  "running_controller =
     new_controller\<lparr>pipeline_set := True, loop_set := True, probe_attached := True,
                    set_state_calls := [PLAYING]\<rparr>"

text \<open>Arguments with two parameters out of range.\<close>

definition two_bad_args :: tiling_args where
  "two_bad_args = example_args\<lparr>tiles_x := 0, tiles_y := 0\<rparr>"

text \<open>
  Arguments that put the output file below the input file, a regular file, with
  \<open>tiles_x\<close> out of range; a file system without the output directory; arguments of the
  resolution-preserving script.
\<close>

definition blocked_args :: tiling_args where
  "blocked_args = example_args\<lparr>output_path := ''in.mp4/result.mp4'', tiles_x := 0\<rparr>"

definition fresh_fs :: filesystem where
  "fresh_fs =
     [Path ''in.mp4'' \<mapsto> File, Path DEFAULT_HEF_PATH \<mapsto> File,
      Path DEFAULT_POSTPROCESS_SO \<mapsto> File]"

definition example_preserve_args :: preserve_args where
  "example_preserve_args =
     \<lparr> input_path = ''in.mp4'', output_path = ''out/result.mp4'',
       hef = DEFAULT_HEF_PATH, postprocess_so = DEFAULT_POSTPROCESS_SO,
       bitrate = BITRATE, debug = False,
       inference_width = INFERENCE_WIDTH, inference_height = INFERENCE_HEIGHT \<rparr>"

text \<open>
  Arguments whose model path contains white space and the text of a leaky queue, for
  each script; and arguments with that text in the input path.
\<close>

definition injected_args :: tiling_args where
  "injected_args =
     example_args\<lparr>hef := ''m.hef ! queue leaky=downstream ! hailonet hef-path=m.hef''\<rparr>"

definition injected_preserve_args :: preserve_args where
  "injected_preserve_args =
     example_preserve_args\<lparr>hef := ''m.hef ! queue leaky=downstream ! hailonet hef-path=m.hef''\<rparr>"

definition quoted_args :: tiling_args where
  "quoted_args =
     example_args\<lparr>input_path := ''my clip ! queue leaky=downstream ! filesrc location=in.mp4''\<rparr>"

section \<open>Properties\<close>

lemma float_le_unit: "(float_le (Finite 0.0) x \<and> float_le x (Finite 1.0)) = in_unit_interval x"
  by (cases x) (simp_all add: in_unit_interval_def)

lemmas tiling_constants =
  DEFAULT_HEF_PATH_def DEFAULT_POSTPROCESS_SO_def TILES_X_def TILES_Y_def OVERLAP_X_def
  OVERLAP_Y_def TILING_MODE_def TILE_WIDTH_def TILE_HEIGHT_def IOU_THRESHOLD_def
  BORDER_THRESHOLD_def REMOVE_LARGE_LANDSCAPE_def BITRATE_def ENCODING_PRESET_def

lemma validate_parameters_error:
  "validate_parameters fm a \<noteq> Inr () \<Longrightarrow> \<exists>m. validate_parameters fm a = Inl (ValueError m)"
  unfolding validate_parameters_def by (auto split: if_splits)

text \<open>
  C1. Parameter validation of the tiling script accepts exactly when \<open>tiles_x\<close> and
  \<open>tiles_y\<close> are integers from 1 to 20, \<open>overlap_x\<close> and \<open>overlap_y\<close> are reals from 0.0
  to 1.0, \<open>tiling_mode\<close> is 0 or 1, and \<open>iou_threshold\<close> and \<open>border_threshold\<close> are reals
  from 0.0 to 1.0; every rejection is the invalid-parameter error (\<^verbatim>\<open>ValueError\<close>). In
  particular \<open>tiles_x = 21\<close> is rejected with that error whatever the other arguments
  are, and \<open>tiles_x = 20\<close>, the other arguments at their defaults, is accepted.
\<close>

theorem validate_parameters_accepts_iff:
  "(validate_parameters fm a = Inr () \<longleftrightarrow>
      1 \<le> tiles_x a \<and> tiles_x a \<le> 20 \<and> 1 \<le> tiles_y a \<and> tiles_y a \<le> 20
      \<and> in_unit_interval (overlap_x a) \<and> in_unit_interval (overlap_y a)
      \<and> (tiling_mode a = 0 \<or> tiling_mode a = 1)
      \<and> in_unit_interval (iou_threshold a) \<and> in_unit_interval (border_threshold a))
   \<and> (validate_parameters fm a \<noteq> Inr () \<longrightarrow> (\<exists>m. validate_parameters fm a = Inl (ValueError m)))
   \<and> (tiles_x a = 21 \<longrightarrow>
        validate_parameters fm a = Inl (ValueError ''tiles-x must be between 1 and 20, got 21''))
   \<and> validate_parameters fm (example_args\<lparr>tiles_x := 20\<rparr>) = Inr ()"
proof (intro conjI impI)
  assume "validate_parameters fm a \<noteq> Inr ()"
  then show "\<exists>m. validate_parameters fm a = Inl (ValueError m)"
    by (rule validate_parameters_error)
next
  show "validate_parameters fm a = Inr () \<longleftrightarrow>
      1 \<le> tiles_x a \<and> tiles_x a \<le> 20 \<and> 1 \<le> tiles_y a \<and> tiles_y a \<le> 20
      \<and> in_unit_interval (overlap_x a) \<and> in_unit_interval (overlap_y a)
      \<and> (tiling_mode a = 0 \<or> tiling_mode a = 1)
      \<and> in_unit_interval (iou_threshold a) \<and> in_unit_interval (border_threshold a)"
    unfolding validate_parameters_def float_le_unit by auto
next
  assume "tiles_x a = 21"
  then show "validate_parameters fm a
               = Inl (ValueError ''tiles-x must be between 1 and 20, got 21'')"
    by (simp add: validate_parameters_def str_int_def)
next
  show "validate_parameters fm (example_args\<lparr>tiles_x := 20\<rparr>) = Inr ()"
    by (simp add: validate_parameters_def example_args_def tiling_constants)
qed

theorem validate_parameters_accepts_iff_witness:
  "tiles_x (example_args\<lparr>tiles_x := 21\<rparr>) = 21
   \<and> validate_parameters example_format (example_args\<lparr>tiles_x := 21\<rparr>)
       = Inl (ValueError ''tiles-x must be between 1 and 20, got 21'')
   \<and> validate_parameters example_format (example_args\<lparr>tiles_x := 21\<rparr>) \<noteq> Inr ()
   \<and> validate_parameters example_format (example_args\<lparr>tiles_x := 20\<rparr>) = Inr ()"
  using validate_parameters_accepts_iff [of example_format "example_args\<lparr>tiles_x := 21\<rparr>"]
  by simp

lemma first_failure:
  "(case (if c then [] else [(n, m)]) @ rest of
      [] \<Rightarrow> Inr () | (name, msg) # r \<Rightarrow> Inl (ValueError msg))
   = (if \<not> c then Inl (ValueError m)
      else (case rest of [] \<Rightarrow> Inr () | (name, msg) # r \<Rightarrow> Inl (ValueError msg)))"
  by simp

lemma last_failure:
  "(case (if c then [] else [(n, m)]) of
      [] \<Rightarrow> Inr () | (name, msg) # r \<Rightarrow> Inl (ValueError msg))
   = (if \<not> c then Inl (ValueError m) else Inr ())"
  by simp

text \<open>
  C2 as stated: when more than one parameter is out of range, the failure result of the
  validator enumerates every violated constraint. This fails: with \<open>tiles_x = 0\<close> and
  \<open>tiles_y = 0\<close> two constraints are violated, and the \<^verbatim>\<open>ValueError\<close> raised names
  \<open>tiles-x\<close> only.
\<close>

theorem validate_parameters_enumerates_counterexample:
  "map fst (constraint_failures example_format two_bad_args) = [''tiles-x'', ''tiles-y'']
   \<and> validate_parameters example_format two_bad_args
       = Inl (ValueError ''tiles-x must be between 1 and 20, got 0'')
   \<and> \<not> enumerates_all (validate_parameters example_format two_bad_args)
          (map fst (constraint_failures example_format two_bad_args))"
  by (simp add: constraint_failures_def two_bad_args_def example_args_def tiling_constants
      validate_parameters_def str_int_def enumerates_all_def in_unit_interval_def
      sublist_Cons_right)

text \<open>
  C2, amended. The validator stops at the first violated constraint, in the order
  \<open>tiles_x\<close>, \<open>tiles_y\<close>, \<open>overlap_x\<close>, \<open>overlap_y\<close>, \<open>tiling_mode\<close>, \<open>iou_threshold\<close>,
  \<open>border_threshold\<close>: it accepts when no constraint is violated, and otherwise its
  failure result is the message of the first violated constraint alone.
\<close>

theorem validate_parameters_reports_first:
  "validate_parameters fm a =
     (case constraint_failures fm a of
        [] \<Rightarrow> Inr ()
      | (name, msg) # rest \<Rightarrow> Inl (ValueError msg))"
  unfolding validate_parameters_def constraint_failures_def float_le_unit
    first_failure last_failure
  by simp

theorem validate_parameters_reports_first_witness:
  "constraint_failures example_format two_bad_args
     = [(''tiles-x'', ''tiles-x must be between 1 and 20, got 0''),
        (''tiles-y'', ''tiles-y must be between 1 and 20, got 0'')]
   \<and> validate_parameters example_format two_bad_args
       = Inl (ValueError ''tiles-x must be between 1 and 20, got 0'')"
  using validate_parameters_reports_first [of example_format two_bad_args]
  by (simp add: constraint_failures_def two_bad_args_def example_args_def tiling_constants
      str_int_def in_unit_interval_def)

subsection \<open>Path validation\<close>


lemma stat_upd: "stat (fs(p \<mapsto> Dir)) q = (if q = p then Some Dir else stat fs q)"
  by (auto simp: stat_def)

lemma mkdir_existing_dir: "is_dir fs p \<Longrightarrow> mkdir parents True fs p = (Inr (), fs)"
  by (subst mkdir.simps) (simp add: os_mkdir_def is_dir_def)

lemma parent_prefix: "fst (parent p) = fst p \<and> prefix (snd (parent p)) (snd p)"
  by (simp add: parent_def prefixeq_butlast)

lemma not_prefix_parent: "snd p \<noteq> [] \<Longrightarrow> \<not> prefix (snd p) (snd (parent p))"
  by (cases "snd p" rule: rev_cases) (auto simp: parent_def prefix_def)

lemma mkdir_exists:
  "stat fs p = Some n \<Longrightarrow>
   mkdir parents exist_ok fs p =
     (if \<not> exist_ok \<or> n \<noteq> Dir then (Inl (FileExistsError (path_str p)), fs) else (Inr (), fs))"
  by (subst mkdir.simps) (simp add: os_mkdir_def is_dir_def)

lemma mkdir_parent_dir:
  "stat fs p = None \<Longrightarrow> stat fs (parent p) = Some Dir \<Longrightarrow>
   mkdir parents exist_ok fs p = (Inr (), fs(p \<mapsto> Dir))"
  by (subst mkdir.simps) (simp add: os_mkdir_def)

lemma mkdir_parent_file:
  "stat fs p = None \<Longrightarrow> stat fs (parent p) = Some File \<Longrightarrow>
   mkdir parents exist_ok fs p = (Inl (NotADirectoryError (path_str p)), fs)"
  by (subst mkdir.simps) (simp add: os_mkdir_def is_dir_def stat_def)

lemma mkdir_parent_missing:
  "stat fs p = None \<Longrightarrow> stat fs (parent p) = None \<Longrightarrow>
   mkdir parents exist_ok fs p =
     (if \<not> parents \<or> parent p = p then (Inl (FileNotFoundError (path_str p)), fs)
      else (case mkdir True True fs (parent p) of
              (Inl e, fs'') \<Rightarrow> (Inl e, fs'')
            | (Inr u, fs'') \<Rightarrow> mkdir False exist_ok fs'' p))"
  by (subst mkdir.simps) (simp add: os_mkdir_def)

lemma mkdir_ok_keeps: "mkdir_ok fs p r \<Longrightarrow> stat fs q \<noteq> None \<Longrightarrow> stat (snd r) q = stat fs q"
  unfolding mkdir_ok_def by blast

lemma mkdir_ok_frame:
  "mkdir_ok fs p r \<Longrightarrow> stat (snd r) q \<noteq> stat fs q \<Longrightarrow> fst q = fst p \<and> prefix (snd q) (snd p)"
  unfolding mkdir_ok_def by blast

lemma mkdir_ok_dir: "mkdir_ok fs p r \<Longrightarrow> fst r = Inr () \<Longrightarrow> is_dir (snd r) p"
  unfolding mkdir_ok_def by blast

lemma mkdir_ok_fail: "mkdir_ok fs p r \<Longrightarrow> fst r \<noteq> Inr () \<Longrightarrow> snd r = fs"
  unfolding mkdir_ok_def by blast

lemma mkdir_props: "mkdir_ok fs p (mkdir True True fs p)"
proof (induction "length (snd p)" arbitrary: p fs rule: less_induct)
  case less
  show ?case
  proof (cases "stat fs p")
    case (Some n)
    then show ?thesis
      by (cases n) (simp_all add: mkdir_exists mkdir_ok_def is_dir_def)
  next
    case None
    then have nonempty: "snd p \<noteq> []"
      by (auto simp: stat_def split: if_splits)
    show ?thesis
    proof (cases "stat fs (parent p)")
      case (Some n)
      show ?thesis
      proof (cases n)
        case File
        with None Some show ?thesis
          by (simp add: mkdir_parent_file mkdir_ok_def)
      next
        case Dir
        with None Some have "mkdir True True fs p = (Inr (), fs(p \<mapsto> Dir))"
          by (simp add: mkdir_parent_dir)
        with None show ?thesis
          by (auto simp: mkdir_ok_def stat_upd is_dir_def)
      qed
    next
      case pNone: None
      from nonempty have neq: "parent p \<noteq> p"
        by (cases p; cases "snd p" rule: rev_cases) (auto simp: parent_def)
      from nonempty have "length (snd (parent p)) < length (snd p)"
        by (simp add: parent_def)
      then have ih: "mkdir_ok fs (parent p) (mkdir True True fs (parent p))"
        by (rule less)
      obtain r1 fs1 where r1: "mkdir True True fs (parent p) = (r1, fs1)"
        by (cases "mkdir True True fs (parent p)")
      have ih_a: "stat fs1 q = stat fs q" if "stat fs q \<noteq> None" for q
        using mkdir_ok_keeps [OF ih that] r1 by simp
      have ih_b: "fst q = fst (parent p) \<and> prefix (snd q) (snd (parent p))"
        if "stat fs1 q \<noteq> stat fs q" for q
        using mkdir_ok_frame [OF ih, of q] that r1 by simp
      show ?thesis
      proof (cases r1)
        case (Inl e)
        with r1 ih have "fs1 = fs" by (simp add: mkdir_ok_def)
        with None pNone neq r1 Inl show ?thesis
          by (simp add: mkdir_parent_missing mkdir_ok_def)
      next
        case (Inr u)
        with r1 ih have dir1: "stat fs1 (parent p) = Some Dir"
          by (simp add: mkdir_ok_def is_dir_def)
        have "stat fs1 p = stat fs p"
        proof (rule ccontr)
          assume "stat fs1 p \<noteq> stat fs p"
          then have "prefix (snd p) (snd (parent p))" using ih_b by blast
          with nonempty show False by (simp add: not_prefix_parent)
        qed
        with None have p1: "stat fs1 p = None" by simp
        from p1 dir1 have "mkdir False True fs1 p = (Inr (), fs1(p \<mapsto> Dir))"
          by (rule mkdir_parent_dir)
        with None pNone neq r1 Inr
        have res: "mkdir True True fs p = (Inr (), fs1(p \<mapsto> Dir))"
          by (simp add: mkdir_parent_missing)
        have a: "stat (fs1(p \<mapsto> Dir)) q = stat fs q" if "stat fs q \<noteq> None" for q
        proof -
          from that None have "q \<noteq> p" by auto
          moreover from that have "stat fs1 q = stat fs q" by (rule ih_a)
          ultimately show ?thesis using that by (auto simp: stat_upd stat_def)
        qed
        have b: "fst q = fst p \<and> prefix (snd q) (snd p)"
          if "stat (fs1(p \<mapsto> Dir)) q \<noteq> stat fs q" for q
        proof (cases "q = p")
          case True
          then show ?thesis by simp
        next
          case False
          with that have "stat fs1 q \<noteq> stat fs q"
            by (auto simp: stat_upd split: if_splits simp: stat_def)
          then have "fst q = fst (parent p) \<and> prefix (snd q) (snd (parent p))"
            by (rule ih_b)
          with parent_prefix [of p] show ?thesis
            by (auto intro: prefix_order.trans)
        qed
        from a b res show ?thesis
          unfolding mkdir_ok_def by (simp add: is_dir_def stat_upd)
      qed
    qed
  qed
qed

lemma mkdir_keeps_existing:
  "path_exists fs q \<Longrightarrow> path_exists (snd (mkdir True True fs p)) q"
  using mkdir_ok_keeps [OF mkdir_props, of fs q p] by (simp add: path_exists_def)

lemma validate_paths_files_exist:
  "path_exists fs (Path (input_path a)) \<Longrightarrow> path_exists fs (Path (hef a)) \<Longrightarrow>
   path_exists fs (Path (postprocess_so a)) \<Longrightarrow>
   validate_paths a fs =
     (if parent (Path (output_path a)) \<noteq> Path ''.''
      then mkdir True True fs (parent (Path (output_path a))) else (Inr (), fs))"
  by (simp add: validate_paths_def Let_def)

lemma example_paths:
  "Path ''in.mp4'' = ([], [''in.mp4''])"
  "Path ''out/result.mp4'' = ([], [''out'', ''result.mp4''])"
  "Path ''out'' = ([], [''out''])"
  "Path ''.'' = ([], [])"
  "Path DEFAULT_HEF_PATH
     = (''/'', [''usr'', ''local'', ''hailo'', ''resources'', ''models'', ''hailo8'', ''yolov11m.hef''])"
  "Path DEFAULT_POSTPROCESS_SO
     = (''/'', [''usr'', ''local'', ''hailo'', ''resources'', ''so'',
               ''libyolo_hailortpp_postprocess.so''])"
  by (simp_all add: Path_def path_root_def DEFAULT_HEF_PATH_def DEFAULT_POSTPROCESS_SO_def)

text \<open>
  C8. Path validation, the same in both scripts, is idempotent with respect to the
  output directory. For every argument set whose input, model and postprocess files
  exist: when the output directory already exists, validation succeeds and leaves the
  file system as it is; and validating twice leaves the file system in the state one
  validation leaves it in (a second validation after a successful one succeeds and
  changes nothing).
\<close>

theorem validate_paths_idempotent:
  assumes "path_exists fs (Path (input_path a))"
    and "path_exists fs (Path (hef a))"
    and "path_exists fs (Path (postprocess_so a))"
  shows "(is_dir fs (parent (Path (output_path a))) \<longrightarrow> validate_paths a fs = (Inr (), fs))
    \<and> snd (validate_paths a (snd (validate_paths a fs))) = snd (validate_paths a fs)
    \<and> (fst (validate_paths a fs) = Inr () \<longrightarrow>
         validate_paths a (snd (validate_paths a fs)) = (Inr (), snd (validate_paths a fs)))"
proof -
  let ?d = "parent (Path (output_path a))"
  note vp = validate_paths_files_exist [OF assms]
  show ?thesis
  proof (cases "?d = Path ''.''")
    case True
    with vp show ?thesis by simp
  next
    case False
    let ?r = "mkdir True True fs ?d"
    from False vp have first: "validate_paths a fs = ?r" by simp
    have again: "validate_paths a (snd ?r) = mkdir True True (snd ?r) ?d"
      using False assms by (simp add: validate_paths_files_exist mkdir_keeps_existing)
    show ?thesis
    proof (cases "fst ?r = Inr ()")
      case True
      then have "is_dir (snd ?r) ?d" by (rule mkdir_ok_dir [OF mkdir_props])
      then have "mkdir True True (snd ?r) ?d = (Inr (), snd ?r)" by (rule mkdir_existing_dir)
      with first again show ?thesis by (simp add: mkdir_existing_dir)
    next
      case failed: False
      then have "snd ?r = fs" by (rule mkdir_ok_fail [OF mkdir_props])
      with first failed show ?thesis by (simp add: mkdir_existing_dir)
    qed
  qed
qed

theorem validate_paths_idempotent_witness:
  "path_exists example_fs (Path (input_path example_args))
   \<and> path_exists example_fs (Path (hef example_args))
   \<and> path_exists example_fs (Path (postprocess_so example_args))
   \<and> is_dir example_fs (parent (Path (output_path example_args)))
   \<and> validate_paths example_args example_fs = (Inr (), example_fs)
   \<and> fst (validate_paths example_args example_fs) = Inr ()"
proof -
  have e: "path_exists example_fs (Path (input_path example_args))"
    "path_exists example_fs (Path (hef example_args))"
    "path_exists example_fs (Path (postprocess_so example_args))"
    by (simp_all add: example_args_def example_fs_def example_paths path_exists_def stat_def)
  have d: "is_dir example_fs (parent (Path (output_path example_args)))"
    by (simp add: example_args_def example_fs_def example_paths is_dir_def stat_def parent_def)
  from validate_paths_idempotent [OF e] d e show ?thesis by simp
qed

subsection \<open>The event router\<close>

lemma print_fields [simp]:
  "frame_count (print_end s e st) = frame_count st"
  "pipeline_set (print_end s e st) = pipeline_set st"
  "loop_set (print_end s e st) = loop_set st"
  "quit_called (print_end s e st) = quit_called st"
  "probe_attached (print_end s e st) = probe_attached st"
  "set_state_calls (print_end s e st) = set_state_calls st"
  "stdout (print_end s e st) = stdout st @ [s @ e]"
  by (simp_all add: print_end_def)

lemma print_debug_fields [simp]:
  "frame_count (print_debug b d st) = frame_count st"
  "pipeline_set (print_debug b d st) = pipeline_set st"
  "loop_set (print_debug b d st) = loop_set st"
  "quit_called (print_debug b d st) = quit_called st"
  "probe_attached (print_debug b d st) = probe_attached st"
  "set_state_calls (print_debug b d st) = set_state_calls st"
  by (simp_all add: print_debug_def print_def split: option.splits)

lemma quit_loop_fields [simp]:
  "frame_count (quit_loop st) = frame_count st"
  "pipeline_set (quit_loop st) = pipeline_set st"
  "loop_set (quit_loop st) = loop_set st"
  "quit_called (quit_loop st) = (loop_set st \<or> quit_called st)"
  "probe_attached (quit_loop st) = probe_attached st"
  "set_state_calls (quit_loop st) = set_state_calls st"
  "stdout (quit_loop st) = stdout st"
  by (simp_all add: quit_loop_def)

lemma on_message_fields [simp]:
  "frame_count (on_message a m st) = frame_count st"
  "pipeline_set (on_message a m st) = pipeline_set st"
  "loop_set (on_message a m st) = loop_set st"
  "probe_attached (on_message a m st) = probe_attached st"
  "set_state_calls (on_message a m st) = set_state_calls st"
  by (cases m; simp add: on_message_def print_def)+

lemma on_message_quit:
  "quit_called (on_message a m st)
     = (quit_called st \<or> (loop_set st \<and> (m = EOS \<or> (\<exists>e d. m = ERROR e d))))"
  by (cases m) (auto simp: on_message_def print_def)

lemma on_buffer_probe_fields [simp]:
  "frame_count (on_buffer_probe k st) = frame_count st + 1"
  "pipeline_set (on_buffer_probe k st) = pipeline_set st"
  "loop_set (on_buffer_probe k st) = loop_set st"
  "quit_called (on_buffer_probe k st) = quit_called st"
  "probe_attached (on_buffer_probe k st) = probe_attached st"
  "set_state_calls (on_buffer_probe k st) = set_state_calls st"
  by (simp_all add: on_buffer_probe_def Let_def)

lemma state_eq_without_output:
  "st1\<lparr>stdout := []\<rparr> = st2\<lparr>stdout := []\<rparr> \<longleftrightarrow>
     frame_count st1 = frame_count st2 \<and> pipeline_set st1 = pipeline_set st2
     \<and> loop_set st1 = loop_set st2 \<and> quit_called st1 = quit_called st2
     \<and> probe_attached st1 = probe_attached st2 \<and> set_state_calls st1 = set_state_calls st2"
  for st1 st2 :: state
  by (cases st1; cases st2) auto

lemma loop_run_without_output:
  "st1\<lparr>stdout := []\<rparr> = st2\<lparr>stdout := []\<rparr> \<Longrightarrow>
   without_output (loop_run (on_message a) (on_buffer_probe k) es st1)
     = without_output (loop_run (on_message a) (on_buffer_probe k) es st2)"
proof (induction es arbitrary: st1 st2)
  case Nil
  show ?case by (simp add: without_output_def)
next
  case (Cons e es)
  show ?case
  proof (cases e)
    case (Bus m)
    have "(on_message a m st1)\<lparr>stdout := []\<rparr> = (on_message a m st2)\<lparr>stdout := []\<rparr>"
      using Cons.prems by (simp add: state_eq_without_output on_message_quit)
    moreover have "quit_called (on_message a m st1) = quit_called (on_message a m st2)"
      using Cons.prems by (simp add: state_eq_without_output on_message_quit)
    ultimately show ?thesis
      using Bus Cons.IH [of "on_message a m st1" "on_message a m st2"]
      by (simp add: Let_def without_output_def)
  next
    case Buffer
    have "probe_attached st1 = probe_attached st2"
      using Cons.prems by (simp add: state_eq_without_output)
    moreover have "(on_buffer_probe k st1)\<lparr>stdout := []\<rparr> = (on_buffer_probe k st2)\<lparr>stdout := []\<rparr>"
      using Cons.prems by (simp add: state_eq_without_output)
    ultimately show ?thesis
      using Buffer Cons.IH [of "on_buffer_probe k st1" "on_buffer_probe k st2"] Cons.IH [OF Cons.prems]
      by simp
  next
    case Sigint
    then show ?thesis using Cons.prems by (simp add: without_output_def)
  qed
qed

lemma warning_only_output:
  "(on_message a (WARNING w d) st)\<lparr>stdout := []\<rparr> = st\<lparr>stdout := []\<rparr>"
  by (simp add: state_eq_without_output on_message_quit)

lemma loop_run_drop_warnings:
  "\<not> quit_called st \<Longrightarrow>
   without_output (loop_run (on_message a) (on_buffer_probe k) (filter (\<lambda>e. \<not> is_warning e) es) st)
     = without_output (loop_run (on_message a) (on_buffer_probe k) es st)"
proof (induction es arbitrary: st)
  case Nil
  show ?case by simp
next
  case (Cons e es)
  show ?case
  proof (cases "is_warning e")
    case True
    then obtain w d where e: "e = Bus (WARNING w d)"
      by (cases e rule: is_warning.cases) auto
    let ?st = "on_message a (WARNING w d) st"
    have nq: "\<not> quit_called ?st" using Cons.prems by (simp add: on_message_quit)
    have "without_output (loop_run (on_message a) (on_buffer_probe k)
            (filter (\<lambda>e. \<not> is_warning e) es) st)
        = without_output (loop_run (on_message a) (on_buffer_probe k)
            (filter (\<lambda>e. \<not> is_warning e) es) ?st)"
      by (rule loop_run_without_output) (simp add: warning_only_output)
    also have "\<dots> = without_output (loop_run (on_message a) (on_buffer_probe k) es ?st)"
      using nq by (rule Cons.IH)
    finally show ?thesis using e nq by (simp add: Let_def)
  next
    case False
    show ?thesis
    proof (cases e)
      case (Bus m)
      with False Cons.IH [of "on_message a m st"] show ?thesis
        by (simp add: Let_def)
    next
      case Buffer
      with Cons.IH [of "on_buffer_probe k st"] Cons.IH [of st] Cons.prems show ?thesis
        by simp
    next
      case Sigint
      then show ?thesis by simp
    qed
  qed
qed

lemma loop_run_only_warnings:
  "\<not> quit_called st \<Longrightarrow> list_all is_warning es \<Longrightarrow> loop_run (on_message a) probe es st = None"
proof (induction es arbitrary: st)
  case Nil
  show ?case by simp
next
  case (Cons e es)
  from Cons.prems obtain w d where e: "e = Bus (WARNING w d)"
    by (cases e rule: is_warning.cases) auto
  with Cons show ?case by (simp add: Let_def on_message_quit)
qed

text \<open>
  C7. A warning delivered to the event router (\<^verbatim>\<open>on_message\<close>, the same in both
  scripts) is logged and changes nothing else: the state after it differs from the state
  before in the printed output only, which grows by the \<^verbatim>\<open>[WARNING]\<close> line (and the
  \<^verbatim>\<open>[DEBUG]\<close> line under \<^verbatim>\<open>--debug\<close>), never by an error. It never stops the run: a
  handler call that requests the loop to quit handled an error or the end of the stream;
  a run that receives warnings only never returns; and removing the warnings from the
  events of a run changes neither how the run ends nor its final state, but for the
  printed output.
\<close>

theorem warning_never_ends_run:
  "(on_message a (WARNING w d) st)\<lparr>stdout := stdout st\<rparr> = st
   \<and> stdout (on_message a (WARNING w d) st)
       = stdout st @ (''[WARNING] '' @ w @ ''\<newline>'')
           # (case d of None \<Rightarrow> []
              | Some t \<Rightarrow> if t \<noteq> [] \<and> debug a then [''[DEBUG] '' @ t @ ''\<newline>''] else [])
   \<and> (quit_called (on_message a m st) \<and> \<not> quit_called st \<longrightarrow> m = EOS \<or> (\<exists>e x. m = ERROR e x))
   \<and> (\<not> quit_called st \<and> list_all is_warning es \<longrightarrow>
        loop_run (on_message a) (on_buffer_probe k) es st = None)
   \<and> (\<not> quit_called st \<longrightarrow>
        without_output (loop_run (on_message a) (on_buffer_probe k)
                          (filter (\<lambda>e. \<not> is_warning e) es) st)
          = without_output (loop_run (on_message a) (on_buffer_probe k) es st))"
proof (intro conjI impI)
  show "(on_message a (WARNING w d) st)\<lparr>stdout := stdout st\<rparr> = st"
    by (cases st) (simp add: on_message_def print_def print_end_def print_debug_def
        split: option.splits)
  show "stdout (on_message a (WARNING w d) st)
       = stdout st @ (''[WARNING] '' @ w @ ''\<newline>'')
           # (case d of None \<Rightarrow> []
              | Some t \<Rightarrow> if t \<noteq> [] \<and> debug a then [''[DEBUG] '' @ t @ ''\<newline>''] else [])"
    by (simp add: on_message_def print_def print_debug_def split: option.splits)
  show "m = EOS \<or> (\<exists>e x. m = ERROR e x)"
    if "quit_called (on_message a m st) \<and> \<not> quit_called st"
    using that by (auto simp: on_message_quit)
  show "loop_run (on_message a) (on_buffer_probe k) es st = None"
    if "\<not> quit_called st \<and> list_all is_warning es"
    using that by (simp add: loop_run_only_warnings)
  show "without_output (loop_run (on_message a) (on_buffer_probe k)
                          (filter (\<lambda>e. \<not> is_warning e) es) st)
          = without_output (loop_run (on_message a) (on_buffer_probe k) es st)"
    if "\<not> quit_called st"
    using that by (rule loop_run_drop_warnings)
qed

theorem warning_never_ends_run_witness:
  "\<not> quit_called running_controller
   \<and> list_all is_warning [Bus (WARNING ''late buffer'' None), Bus (WARNING ''clock'' (Some ''x''))]
   \<and> loop_run (on_message example_args) (on_buffer_probe 50)
        [Bus (WARNING ''late buffer'' None), Bus (WARNING ''clock'' (Some ''x''))]
        running_controller = None
   \<and> quit_called (on_message example_args EOS running_controller)
   \<and> stdout (on_message example_args (WARNING ''late buffer'' None) running_controller)
       = [''[WARNING] late buffer\<newline>'']"
proof -
  have q: "\<not> quit_called running_controller"
    by (simp add: running_controller_def new_controller_def)
  have w: "list_all is_warning
             [Bus (WARNING ''late buffer'' None), Bus (WARNING ''clock'' (Some ''x''))]"
    by simp
  have e: "quit_called (on_message example_args EOS running_controller)"
    by (simp add: on_message_quit running_controller_def)
  from warning_never_ends_run
         [where a = example_args and w = "''late buffer''" and d = None
            and st = running_controller and m = EOS and k = 50
            and es = "[Bus (WARNING ''late buffer'' None), Bus (WARNING ''clock'' (Some ''x''))]"]
       q w e
  show ?thesis by (simp add: running_controller_def new_controller_def)
qed

subsection \<open>The main loop and teardown\<close>

lemma loop_run_returns_iff:
  "\<not> quit_called st \<Longrightarrow> loop_set st \<Longrightarrow>
   loop_run (on_message a) (on_buffer_probe k) es st \<noteq> None \<longleftrightarrow> (\<exists>e\<in>set es. ends_run e)"
proof (induction es arbitrary: st)
  case Nil
  show ?case by simp
next
  case (Cons e es)
  show ?case
  proof (cases e)
    case (Bus m)
    show ?thesis
    proof (cases "m = EOS \<or> (\<exists>x d. m = ERROR x d)")
      case True
      with Bus Cons.prems show ?thesis
        by (auto simp: Let_def on_message_quit)
    next
      case False
      then have "\<not> ends_run (Bus m)" by (cases m) auto
      moreover from False Cons.prems have "\<not> quit_called (on_message a m st)"
        by (simp add: on_message_quit)
      ultimately show ?thesis
        using Bus Cons.IH [of "on_message a m st"] Cons.prems by (simp add: Let_def)
    qed
  next
    case Buffer
    with Cons.IH [of "on_buffer_probe k st"] Cons.IH [of st] Cons.prems show ?thesis
      by simp
  next
    case Sigint
    then show ?thesis by simp
  qed
qed

lemma loop_run_keeps:
  "loop_run (on_message a) (on_buffer_probe k) es st = Some (x, st') \<Longrightarrow>
   set_state_calls st' = set_state_calls st \<and> loop_set st' = loop_set st
   \<and> pipeline_set st' = pipeline_set st \<and> probe_attached st' = probe_attached st"
proof (induction es arbitrary: st)
  case Nil
  then show ?case by simp
next
  case (Cons e es)
  show ?case
  proof (cases e)
    case (Bus m)
    with Cons.prems Cons.IH [of "on_message a m st"] show ?thesis
      by (auto simp: Let_def split: if_splits)
  next
    case Buffer
    with Cons.prems Cons.IH [of "on_buffer_probe k st"] Cons.IH [of st] show ?thesis
      by (auto split: if_splits)
  next
    case Sigint
    with Cons.prems show ?thesis by auto
  qed
qed

text \<open>
  With the probe attached, the frame counter a run ends with counts the buffers that left
  the probed pad (the source pad of the aggregator or of the muxer) before the run ended.
\<close>

lemma frame_count_counts_buffers:
  "\<not> quit_called st \<Longrightarrow> loop_set st \<Longrightarrow> probe_attached st \<Longrightarrow>
   loop_run (on_message a) (on_buffer_probe k) es st = Some (x, st') \<Longrightarrow>
   frame_count st'
     = frame_count st + int (length (filter (\<lambda>e. e = Buffer) (takeWhile (\<lambda>e. \<not> ends_run e) es)))"
proof (induction es arbitrary: st)
  case Nil
  then show ?case by simp
next
  case (Cons e es)
  show ?case
  proof (cases e)
    case (Bus m)
    show ?thesis
    proof (cases "m = EOS \<or> (\<exists>y d. m = ERROR y d)")
      case True
      with Bus Cons.prems show ?thesis
        by (auto simp: Let_def on_message_quit)
    next
      case False
      then have n: "\<not> ends_run (Bus m)" by (cases m) auto
      from False Cons.prems have q: "\<not> quit_called (on_message a m st)"
        by (simp add: on_message_quit)
      with Bus Cons.prems
      have "loop_run (on_message a) (on_buffer_probe k) es (on_message a m st) = Some (x, st')"
        by (simp add: Let_def)
      from Cons.IH [OF q _ _ this] Cons.prems Bus n show ?thesis by simp
    qed
  next
    case Buffer
    with Cons.prems
    have "loop_run (on_message a) (on_buffer_probe k) es (on_buffer_probe k st) = Some (x, st')"
      by simp
    from Cons.IH [OF _ _ _ this] Cons.prems Buffer show ?thesis by simp
  next
    case Sigint
    with Cons.prems show ?thesis by simp
  qed
qed

lemma set_state_fields [simp]:
  "frame_count (set_state x st) = frame_count st"
  "set_state_calls (set_state x st) = set_state_calls st @ [x]"
  "stdout (set_state x st) = stdout st"
  "loop_set (set_state x st) = loop_set st"
  "quit_called (set_state x st) = quit_called st"
  by (simp_all add: set_state_def)

lemma tiling_finally_fields:
  "frame_count (tiling_finally a st) = frame_count st"
  "set_state_calls (tiling_finally a st) = set_state_calls st @ [NULL]"
  "stdout (tiling_finally a st) = stdout st
     @ [''\<newline>[DONE] Output saved to: '' @ output_path a @ ''\<newline>'',
        ''[DONE] Total frames processed: '' @ str_int (frame_count st) @ ''\<newline>'',
        ''[DONE] Tiles per frame: '' @ str_int (tiles_x a * tiles_y a) @ ''\<newline>\<newline>'']"
  by (simp_all add: tiling_finally_def print_def)

lemma preserve_finally_fields:
  "frame_count (preserve_finally a st) = frame_count st"
  "set_state_calls (preserve_finally a st) = set_state_calls st @ [NULL]"
  "stdout (preserve_finally a st) = stdout st
     @ [''\<newline>[DONE] Output saved to: '' @ output_path a @ ''\<newline>'',
        ''[DONE] Total frames processed: '' @ str_int (frame_count st) @ ''\<newline>\<newline>'']"
  by (simp_all add: preserve_finally_def print_def)

lemma start_and_run_eq:
  "start_and_run g a element start_line probe final st =
     (if set_state_playing g = FAILURE
      then Some (1, print ''[ERROR] Unable to set pipeline to PLAYING state''
                      (started g element start_line st))
      else (case loop_run (on_message a) probe (events g) (started g element start_line st) of
              None \<Rightarrow> None
            | Some (Returned, st5) \<Rightarrow> Some (0, final st5)
            | Some (Interrupted, st5) \<Rightarrow>
                Some (0, final (print ''\<newline>[INTERRUPTED] Stopping pipeline...'' st5))))"
  by (simp add: start_and_run_def started_def Let_def)

lemma started_fields [simp]:
  "loop_set (started g element start_line st)"
  "quit_called (started g element start_line st) = quit_called st"
  "set_state_calls (started g element start_line st) = set_state_calls st @ [PLAYING]"
  by (simp_all add: started_def print_def)

lemma print_all_fields [simp]:
  "quit_called (print_all ls st) = quit_called st"
  "set_state_calls (print_all ls st) = set_state_calls st"
  "frame_count (print_all ls st) = frame_count st"
  unfolding print_all_def by (induction ls arbitrary: st) (simp_all add: print_def)

lemma print_description_fields [simp]:
  "quit_called (print_description t d st) = quit_called st"
  "set_state_calls (print_description t d st) = set_state_calls st"
  "frame_count (print_description t d st) = frame_count st"
  by (simp_all add: print_description_def print_def)

lemma tiling_build_pipeline_fields [simp]:
  "fst (tiling_build_pipeline fm a st) = tiling_description fm a"
  "quit_called (snd (tiling_build_pipeline fm a st)) = quit_called st"
  "set_state_calls (snd (tiling_build_pipeline fm a st)) = set_state_calls st"
  by (simp_all add: tiling_build_pipeline_def Let_def)

lemma preserve_build_pipeline_fields [simp]:
  "fst (preserve_build_pipeline fm a st) = preserve_description fm a"
  "quit_called (snd (preserve_build_pipeline fm a st)) = quit_called st"
  "set_state_calls (snd (preserve_build_pipeline fm a st)) = set_state_calls st"
  by (simp_all add: preserve_build_pipeline_def Let_def)

lemma started_run:
  assumes "set_state_playing g \<noteq> FAILURE" and "\<not> quit_called st" and "set_state_calls st = []"
    and fin: "\<And>s. set_state_calls (final s) = set_state_calls s @ [NULL]
                  \<and> frame_count (final s) = frame_count s \<and> line (frame_count s) \<in> set (stdout (final s))"
  shows "(start_and_run g a element start_line (on_buffer_probe k) final st \<noteq> None
            \<longleftrightarrow> (\<exists>e\<in>set (events g). ends_run e))
    \<and> (\<forall>code st'. start_and_run g a element start_line (on_buffer_probe k) final st = Some (code, st')
          \<longrightarrow> code = 0 \<and> set_state_calls st' = [PLAYING, NULL]
              \<and> line (frame_count st') \<in> set (stdout st'))"
proof -
  let ?s = "started g element start_line st"
  let ?l = "loop_run (on_message a) (on_buffer_probe k) (events g) ?s"
  have iff: "?l \<noteq> None \<longleftrightarrow> (\<exists>e\<in>set (events g). ends_run e)"
    using assms(2) by (intro loop_run_returns_iff) simp_all
  have 1: "start_and_run g a element start_line (on_buffer_probe k) final st \<noteq> None
            \<longleftrightarrow> (\<exists>e\<in>set (events g). ends_run e)"
    unfolding iff [symmetric] using assms(1)
    by (simp add: start_and_run_eq split: option.splits loop_exit.splits)
  have 2: "code = 0 \<and> set_state_calls st' = [PLAYING, NULL]
              \<and> line (frame_count st') \<in> set (stdout st')"
    if run: "start_and_run g a element start_line (on_buffer_probe k) final st = Some (code, st')"
    for code st'
  proof (cases ?l)
    case None
    with run assms(1) show ?thesis by (simp add: start_and_run_eq)
  next
    case (Some r)
    obtain x st5 where r: "r = (x, st5)" by (cases r)
    from Some r have calls: "set_state_calls st5 = [PLAYING]"
      using loop_run_keeps [of a k "events g" ?s x st5] assms(3) by simp
    show ?thesis
    proof (cases x)
      case Returned
      with run Some r assms(1) have "code = 0" "st' = final st5"
        by (simp_all add: start_and_run_eq)
      with calls fin [of st5] show ?thesis by simp
    next
      case Interrupted
      let ?s6 = "print ''\<newline>[INTERRUPTED] Stopping pipeline...'' st5"
      from Interrupted run Some r assms(1) have "code = 0" "st' = final ?s6"
        by (simp_all add: start_and_run_eq)
      with calls fin [of ?s6] show ?thesis by (simp add: print_def)
    qed
  qed
  from 1 2 show ?thesis by blast
qed

lemma new_controller_fields [simp]:
  "\<not> quit_called new_controller" "set_state_calls new_controller = []"
  "frame_count new_controller = 0"
  by (simp_all add: new_controller_def)

lemma tiling_run_eq:
  "tiling_run fm g a st =
     (case parse_launch g (tiling_description fm a) of
        Inl (Exception (GLib_Error e)) \<Rightarrow>
          Some (Inr 1, print (''[ERROR] Failed to create pipeline: '' @ e)
                         (snd (tiling_build_pipeline fm a (print_all (tiling_banner fm a) st))))
      | Inl r \<Rightarrow> Some (Inl r, snd (tiling_build_pipeline fm a (print_all (tiling_banner fm a) st)))
      | Inr u \<Rightarrow>
          map_option (\<lambda>(code, st2). (Inr code, st2))
            (start_and_run g a ''aggregator'' ''[START] Starting tiling pipeline...\<newline>''
               (on_buffer_probe 50) (tiling_finally a)
               (snd (tiling_build_pipeline fm a (print_all (tiling_banner fm a) st)))))"
  by (simp add: tiling_run_def tiling_on_buffer_probe_def case_prod_beta
      split: sum.splits raised.splits exception.splits)

lemma preserve_run_eq:
  "preserve_run fm g a st =
     (case parse_launch g (preserve_description fm a) of
        Inl (Exception (GLib_Error e)) \<Rightarrow>
          Some (Inr 1, print (''[ERROR] Failed to create pipeline: '' @ e)
                         (snd (preserve_build_pipeline fm a (print_all (preserve_banner a) st))))
      | Inl r \<Rightarrow> Some (Inl r, snd (preserve_build_pipeline fm a (print_all (preserve_banner a) st)))
      | Inr u \<Rightarrow>
          map_option (\<lambda>(code, st2). (Inr code, st2))
            (start_and_run g a ''mux'' ''[START] Starting pipeline...\<newline>''
               (on_buffer_probe 100) (preserve_finally a)
               (snd (preserve_build_pipeline fm a (print_all (preserve_banner a) st)))))"
  by (simp add: preserve_run_def preserve_on_buffer_probe_def case_prod_beta
      split: sum.splits raised.splits exception.splits)

lemma tiling_started:
  assumes "parse_launch g (tiling_description fm a) = Inr ()" and "set_state_playing g \<noteq> FAILURE"
  shows "(tiling_run fm g a new_controller \<noteq> None \<longleftrightarrow> (\<exists>e\<in>set (events g). ends_run e))
    \<and> (\<forall>r st'. tiling_run fm g a new_controller = Some (r, st') \<longrightarrow>
          r = Inr 0 \<and> set_state_calls st' = [PLAYING, NULL]
          \<and> ''[DONE] Total frames processed: '' @ str_int (frame_count st') @ ''\<newline>''
              \<in> set (stdout st'))"
proof -
  let ?st = "snd (tiling_build_pipeline fm a (print_all (tiling_banner fm a) new_controller))"
  have "(start_and_run g a ''aggregator'' ''[START] Starting tiling pipeline...\<newline>''
            (on_buffer_probe 50) (tiling_finally a) ?st \<noteq> None
            \<longleftrightarrow> (\<exists>e\<in>set (events g). ends_run e))
    \<and> (\<forall>code st'. start_and_run g a ''aggregator'' ''[START] Starting tiling pipeline...\<newline>''
            (on_buffer_probe 50) (tiling_finally a) ?st = Some (code, st')
          \<longrightarrow> code = 0 \<and> set_state_calls st' = [PLAYING, NULL]
              \<and> ''[DONE] Total frames processed: '' @ str_int (frame_count st') @ ''\<newline>''
                  \<in> set (stdout st'))"
    by (rule started_run [OF assms(2)]) (simp_all add: tiling_finally_fields)
  then show ?thesis
    using assms(1) by (auto simp: tiling_run_eq)
qed

lemma preserve_started:
  assumes "parse_launch g (preserve_description fm a) = Inr ()" and "set_state_playing g \<noteq> FAILURE"
  shows "(preserve_run fm g a new_controller \<noteq> None \<longleftrightarrow> (\<exists>e\<in>set (events g). ends_run e))
    \<and> (\<forall>r st'. preserve_run fm g a new_controller = Some (r, st') \<longrightarrow>
          r = Inr 0 \<and> set_state_calls st' = [PLAYING, NULL]
          \<and> ''[DONE] Total frames processed: '' @ str_int (frame_count st') @ ''\<newline>\<newline>''
              \<in> set (stdout st'))"
proof -
  let ?st = "snd (preserve_build_pipeline fm a (print_all (preserve_banner a) new_controller))"
  have "(start_and_run g a ''mux'' ''[START] Starting pipeline...\<newline>''
            (on_buffer_probe 100) (preserve_finally a) ?st \<noteq> None
            \<longleftrightarrow> (\<exists>e\<in>set (events g). ends_run e))
    \<and> (\<forall>code st'. start_and_run g a ''mux'' ''[START] Starting pipeline...\<newline>''
            (on_buffer_probe 100) (preserve_finally a) ?st = Some (code, st')
          \<longrightarrow> code = 0 \<and> set_state_calls st' = [PLAYING, NULL]
              \<and> ''[DONE] Total frames processed: '' @ str_int (frame_count st') @ ''\<newline>\<newline>''
                  \<in> set (stdout st'))"
    by (rule started_run [OF assms(2)]) (simp_all add: preserve_finally_fields)
  then show ?thesis
    using assms(1) by (auto simp: preserve_run_eq)
qed

text \<open>
  C5. In both scripts, a run that has started (the graph was built and did not fail to
  reach \<^verbatim>\<open>PLAYING\<close>) ends exactly when the end of the stream, a stage error or the
  interrupt arrives; whenever it ends, \<^verbatim>\<open>run\<close> returns 0, the states requested from
  the pipeline are \<^verbatim>\<open>PLAYING\<close> and then \<^verbatim>\<open>NULL\<close>, so the teardown happens exactly once,
  and the final frame counter has been printed before \<^verbatim>\<open>run\<close> returns.
\<close>

theorem teardown_once_counter_reported:
  "(parse_launch g (tiling_description fm a) = Inr () \<and> set_state_playing g \<noteq> FAILURE \<longrightarrow>
      (tiling_run fm g a new_controller \<noteq> None \<longleftrightarrow> (\<exists>e\<in>set (events g). ends_run e))
      \<and> (\<forall>r st'. tiling_run fm g a new_controller = Some (r, st') \<longrightarrow>
            r = Inr 0 \<and> set_state_calls st' = [PLAYING, NULL]
            \<and> count_list (set_state_calls st') NULL = 1
            \<and> ''[DONE] Total frames processed: '' @ str_int (frame_count st') @ ''\<newline>''
                \<in> set (stdout st')))
   \<and> (parse_launch g (preserve_description fm b) = Inr () \<and> set_state_playing g \<noteq> FAILURE \<longrightarrow>
      (preserve_run fm g b new_controller \<noteq> None \<longleftrightarrow> (\<exists>e\<in>set (events g). ends_run e))
      \<and> (\<forall>r st'. preserve_run fm g b new_controller = Some (r, st') \<longrightarrow>
            r = Inr 0 \<and> set_state_calls st' = [PLAYING, NULL]
            \<and> count_list (set_state_calls st') NULL = 1
            \<and> ''[DONE] Total frames processed: '' @ str_int (frame_count st') @ ''\<newline>\<newline>''
                \<in> set (stdout st')))"
proof (intro conjI impI)
  assume h: "parse_launch g (tiling_description fm a) = Inr () \<and> set_state_playing g \<noteq> FAILURE"
  then have t: "(tiling_run fm g a new_controller \<noteq> None \<longleftrightarrow> (\<exists>e\<in>set (events g). ends_run e))
    \<and> (\<forall>r st'. tiling_run fm g a new_controller = Some (r, st') \<longrightarrow>
          r = Inr 0 \<and> set_state_calls st' = [PLAYING, NULL]
          \<and> ''[DONE] Total frames processed: '' @ str_int (frame_count st') @ ''\<newline>''
              \<in> set (stdout st'))"
    by (intro tiling_started) simp_all
  from t show "tiling_run fm g a new_controller \<noteq> None \<longleftrightarrow> (\<exists>e\<in>set (events g). ends_run e)"
    by (rule conjunct1)
  from t show "\<forall>r st'. tiling_run fm g a new_controller = Some (r, st') \<longrightarrow>
            r = Inr 0 \<and> set_state_calls st' = [PLAYING, NULL]
            \<and> count_list (set_state_calls st') NULL = 1
            \<and> ''[DONE] Total frames processed: '' @ str_int (frame_count st') @ ''\<newline>''
                \<in> set (stdout st')"
    by simp
next
  assume h: "parse_launch g (preserve_description fm b) = Inr () \<and> set_state_playing g \<noteq> FAILURE"
  then have t: "(preserve_run fm g b new_controller \<noteq> None \<longleftrightarrow> (\<exists>e\<in>set (events g). ends_run e))
    \<and> (\<forall>r st'. preserve_run fm g b new_controller = Some (r, st') \<longrightarrow>
          r = Inr 0 \<and> set_state_calls st' = [PLAYING, NULL]
          \<and> ''[DONE] Total frames processed: '' @ str_int (frame_count st') @ ''\<newline>\<newline>''
              \<in> set (stdout st'))"
    by (intro preserve_started) simp_all
  from t show "preserve_run fm g b new_controller \<noteq> None \<longleftrightarrow> (\<exists>e\<in>set (events g). ends_run e)"
    by (rule conjunct1)
  from t show "\<forall>r st'. preserve_run fm g b new_controller = Some (r, st') \<longrightarrow>
            r = Inr 0 \<and> set_state_calls st' = [PLAYING, NULL]
            \<and> count_list (set_state_calls st') NULL = 1
            \<and> ''[DONE] Total frames processed: '' @ str_int (frame_count st') @ ''\<newline>\<newline>''
                \<in> set (stdout st')"
    by simp
qed

theorem teardown_once_counter_reported_witness:
  "parse_launch example_gst (tiling_description example_format example_args) = Inr ()
   \<and> parse_launch example_gst (preserve_description example_format example_preserve_args) = Inr ()
   \<and> set_state_playing example_gst \<noteq> FAILURE
   \<and> list_ex ends_run (events example_gst)
   \<and> tiling_run example_format example_gst example_args new_controller \<noteq> None
   \<and> preserve_run example_format example_gst example_preserve_args new_controller \<noteq> None"
proof -
  have h: "parse_launch example_gst (tiling_description example_format example_args) = Inr ()"
    "parse_launch example_gst (preserve_description example_format example_preserve_args) = Inr ()"
    "set_state_playing example_gst \<noteq> FAILURE"
    by (simp_all add: example_gst_def)
  have e: "\<exists>e\<in>set (events example_gst). ends_run e"
    by (simp add: example_gst_def)
  from teardown_once_counter_reported
         [of example_gst example_format example_args example_preserve_args] h e
  show ?thesis by (simp add: list_ex_iff)
qed

subsection \<open>Exit status\<close>

lemma tiling_run_status:
  "map_option (\<lambda>(r, st). exit_status r) (tiling_run fm g a new_controller)
     = (case parse_launch g (tiling_description fm a) of
          Inl r \<Rightarrow> Some (exit_status (Inl r))
        | Inr u \<Rightarrow>
            if set_state_playing g = FAILURE then Some 1
            else if \<exists>e\<in>set (events g). ends_run e then Some 0 else None)"
proof (cases "parse_launch g (tiling_description fm a)")
  case (Inl r)
  show ?thesis
  proof (cases r)
    case (Exception e)
    with Inl show ?thesis by (cases e) (simp_all add: tiling_run_eq)
  qed (simp_all add: Inl tiling_run_eq)
next
  case (Inr u)
  then have launch: "parse_launch g (tiling_description fm a) = Inr ()" by simp
  show ?thesis
  proof (cases "set_state_playing g = FAILURE")
    case True
    with launch show ?thesis by (simp add: tiling_run_eq start_and_run_eq)
  next
    case False
    from tiling_started [OF launch False] launch False show ?thesis
      by (cases "tiling_run fm g a new_controller") auto
  qed
qed

lemma preserve_run_status:
  "map_option (\<lambda>(r, st). exit_status r) (preserve_run fm g a new_controller)
     = (case parse_launch g (preserve_description fm a) of
          Inl r \<Rightarrow> Some (exit_status (Inl r))
        | Inr u \<Rightarrow>
            if set_state_playing g = FAILURE then Some 1
            else if \<exists>e\<in>set (events g). ends_run e then Some 0 else None)"
proof (cases "parse_launch g (preserve_description fm a)")
  case (Inl r)
  show ?thesis
  proof (cases r)
    case (Exception e)
    with Inl show ?thesis by (cases e) (simp_all add: preserve_run_eq)
  qed (simp_all add: Inl preserve_run_eq)
next
  case (Inr u)
  then have launch: "parse_launch g (preserve_description fm a) = Inr ()" by simp
  show ?thesis
  proof (cases "set_state_playing g = FAILURE")
    case True
    with launch show ?thesis by (simp add: preserve_run_eq start_and_run_eq)
  next
    case False
    from preserve_started [OF launch False] launch False show ?thesis
      by (cases "preserve_run fm g a new_controller") auto
  qed
qed

lemma tiling_exit_run:
  assumes "tiling_parse_args c = Inr a" and "tiling_init fm a fs = (Inr (), fs')"
  shows "tiling_exit fm g c fs
     = map_option (\<lambda>(r, st). exit_status r) (tiling_run fm g a new_controller)"
  using assms
  by (cases "tiling_run fm g a new_controller")
     (auto simp: tiling_exit_def tiling_main_def split: sum.splits raised.splits)

lemma preserve_exit_run:
  assumes "preserve_parse_args c = Inr a" and "preserve_init a fs = (Inr (), fs')"
  shows "preserve_exit fm g c fs
     = map_option (\<lambda>(r, st). exit_status r) (preserve_run fm g a new_controller)"
  using assms
  by (cases "preserve_run fm g a new_controller")
     (auto simp: preserve_exit_def preserve_main_def split: sum.splits raised.splits)

lemma uninterrupted_status:
  "uninterrupted x \<Longrightarrow>
   (case x of Inl r \<Rightarrow> Some (exit_status (Inl r)) | Inr u \<Rightarrow> y) = (if x \<noteq> Inr () then Some 1 else y)"
  by (cases x rule: uninterrupted.cases) simp_all

lemma tiling_exit_parsed:
  assumes "tiling_parse_args c = Inr a"
    and "uninterrupted (parse_launch g (tiling_description fm a))"
  shows "tiling_exit fm g c fs =
     (if fst (tiling_init fm a fs) \<noteq> Inr () then Some 1
      else if parse_launch g (tiling_description fm a) \<noteq> Inr () then Some 1
      else if set_state_playing g = FAILURE then Some 1
      else if \<exists>e\<in>set (events g). ends_run e then Some 0 else None)"
proof (cases "fst (tiling_init fm a fs) = Inr ()")
  case False
  with assms(1) show ?thesis
    by (cases "tiling_init fm a fs") (auto simp: tiling_exit_def tiling_main_def split: sum.splits)
next
  case True
  then obtain fs' where init: "tiling_init fm a fs = (Inr (), fs')"
    by (cases "tiling_init fm a fs") auto
  from True show ?thesis
    by (simp add: tiling_exit_run [OF assms(1) init] tiling_run_status
        uninterrupted_status [OF assms(2)])
qed

lemma preserve_exit_parsed:
  assumes "preserve_parse_args c = Inr a"
    and "uninterrupted (parse_launch g (preserve_description fm a))"
  shows "preserve_exit fm g c fs =
     (if fst (preserve_init a fs) \<noteq> Inr () then Some 1
      else if parse_launch g (preserve_description fm a) \<noteq> Inr () then Some 1
      else if set_state_playing g = FAILURE then Some 1
      else if \<exists>e\<in>set (events g). ends_run e then Some 0 else None)"
proof (cases "fst (preserve_init a fs) = Inr ()")
  case False
  with assms(1) show ?thesis
    by (cases "preserve_init a fs") (auto simp: preserve_exit_def preserve_main_def split: sum.splits)
next
  case True
  then obtain fs' where init: "preserve_init a fs = (Inr (), fs')"
    by (cases "preserve_init a fs") auto
  from True show ?thesis
    by (simp add: preserve_exit_run [OF assms(1) init] preserve_run_status
        uninterrupted_status [OF assms(2)])
qed

lemma ends_with_eos_ends: "ends_with_eos es \<Longrightarrow> \<exists>e\<in>set es. ends_run e"
  by (auto simp: ends_with_eos_def find_Some_iff)

lemma tiling_exit_unparsed:
  "tiling_parse_args c = Inl r \<Longrightarrow>
   tiling_exit fm g c fs = Some (exit_status (Inl r)) \<and> (r = SystemExit 0 \<or> r = SystemExit 2)"
  by (auto simp: tiling_exit_def tiling_main_def tiling_parse_args_def
      split: if_splits option.splits)

lemma preserve_exit_unparsed:
  "preserve_parse_args c = Inl r \<Longrightarrow>
   preserve_exit fm g c fs = Some (exit_status (Inl r)) \<and> (r = SystemExit 0 \<or> r = SystemExit 2)"
  by (auto simp: preserve_exit_def preserve_main_def preserve_parse_args_def
      split: if_splits option.splits)

lemma missing_file_fails:
  "\<not> path_exists fs (Path (input_path a)) \<or> \<not> path_exists fs (Path (hef a))
     \<or> \<not> path_exists fs (Path (postprocess_so a)) \<Longrightarrow>
   \<exists>m. validate_paths a fs = (Inl (FileNotFoundError m), fs)"
  by (auto simp: validate_paths_def)

lemma tiling_init_fails:
  "fst (validate_paths a fs) \<noteq> Inr () \<or> validate_parameters fm a \<noteq> Inr () \<Longrightarrow>
   fst (tiling_init fm a fs) \<noteq> Inr ()"
  by (cases "validate_paths a fs") (auto simp: tiling_init_def split: sum.splits)

lemma example_cli_parsed: "tiling_parse_args example_cli = Inr example_args"
  by (simp add: tiling_parse_args_def example_cli_def example_args_def with_default_def
      store_true_def)

lemma example_files:
  "path_exists example_fs (Path (input_path example_args))"
  "path_exists example_fs (Path (hef example_args))"
  "path_exists example_fs (Path (postprocess_so example_args))"
  by (simp_all add: example_args_def example_fs_def example_paths path_exists_def stat_def)

lemma example_init: "tiling_init example_format example_args example_fs = (Inr (), example_fs)"
proof -
  have "is_dir example_fs (parent (Path (output_path example_args)))"
    by (simp add: example_args_def example_fs_def example_paths is_dir_def stat_def parent_def)
  then have "validate_paths example_args example_fs = (Inr (), example_fs)"
    by (simp add: validate_paths_files_exist [OF example_files] mkdir_existing_dir)
  moreover have "validate_parameters example_format example_args = Inr ()"
    by (simp add: validate_parameters_def example_args_def tiling_constants)
  ultimately show ?thesis by (simp add: tiling_init_def)
qed

text \<open>
  C3, amended. For every invocation whose command line \<^verbatim>\<open>argparse\<close> does not reject and
  that no interrupt cuts short outside the main loop (which here is: while the graph
  is built), in both scripts: the exit status is 1 when a required file is missing,
  when a tiling or aggregation parameter is out of range, when the constructor fails
  in any other way, when the graph cannot be built (\<^verbatim>\<open>GLib.Error\<close> or any other
  exception), and when the pipeline fails to reach \<^verbatim>\<open>PLAYING\<close>; it is 0 on success,
  that is when validation, construction and start succeed and the run ends with the
  end of the stream; and 0 and 1 are the only statuses. Which of the two a run has
  that a stage error or the interrupt in the main loop ends is not part of the
  statement. An invocation that \<^verbatim>\<open>argparse\<close> ends has the status of \<^verbatim>\<open>argparse\<close>: 0 for
  the help text, 2 for a command line it rejects.
\<close>

theorem exit_status_of_invocation:
  "(tiling_parse_args c = Inr a \<and> uninterrupted (parse_launch g (tiling_description fm a)) \<longrightarrow>
      (\<not> path_exists fs (Path (input_path a)) \<or> \<not> path_exists fs (Path (hef a))
         \<or> \<not> path_exists fs (Path (postprocess_so a)) \<longrightarrow> tiling_exit fm g c fs = Some 1)
      \<and> (validate_parameters fm a \<noteq> Inr () \<longrightarrow> tiling_exit fm g c fs = Some 1)
      \<and> (fst (tiling_init fm a fs) \<noteq> Inr () \<longrightarrow> tiling_exit fm g c fs = Some 1)
      \<and> (parse_launch g (tiling_description fm a) \<noteq> Inr () \<longrightarrow> tiling_exit fm g c fs = Some 1)
      \<and> (set_state_playing g = FAILURE \<longrightarrow> tiling_exit fm g c fs = Some 1)
      \<and> (fst (tiling_init fm a fs) = Inr () \<and> parse_launch g (tiling_description fm a) = Inr ()
            \<and> set_state_playing g \<noteq> FAILURE \<and> ends_with_eos (events g) \<longrightarrow>
          tiling_exit fm g c fs = Some 0)
      \<and> (tiling_exit fm g c fs = None \<or> tiling_exit fm g c fs = Some 0
           \<or> tiling_exit fm g c fs = Some 1))
   \<and> (tiling_parse_args c = Inl r \<longrightarrow>
        tiling_exit fm g c fs = Some (exit_status (Inl r)) \<and> (r = SystemExit 0 \<or> r = SystemExit 2))
   \<and> (preserve_parse_args c' = Inr a'
        \<and> uninterrupted (parse_launch g (preserve_description fm a')) \<longrightarrow>
      (\<not> path_exists fs (Path (input_path a')) \<or> \<not> path_exists fs (Path (hef a'))
         \<or> \<not> path_exists fs (Path (postprocess_so a')) \<longrightarrow> preserve_exit fm g c' fs = Some 1)
      \<and> (fst (preserve_init a' fs) \<noteq> Inr () \<longrightarrow> preserve_exit fm g c' fs = Some 1)
      \<and> (parse_launch g (preserve_description fm a') \<noteq> Inr () \<longrightarrow> preserve_exit fm g c' fs = Some 1)
      \<and> (set_state_playing g = FAILURE \<longrightarrow> preserve_exit fm g c' fs = Some 1)
      \<and> (fst (preserve_init a' fs) = Inr () \<and> parse_launch g (preserve_description fm a') = Inr ()
            \<and> set_state_playing g \<noteq> FAILURE \<and> ends_with_eos (events g) \<longrightarrow>
          preserve_exit fm g c' fs = Some 0)
      \<and> (preserve_exit fm g c' fs = None \<or> preserve_exit fm g c' fs = Some 0
           \<or> preserve_exit fm g c' fs = Some 1))
   \<and> (preserve_parse_args c' = Inl r' \<longrightarrow>
        preserve_exit fm g c' fs = Some (exit_status (Inl r'))
        \<and> (r' = SystemExit 0 \<or> r' = SystemExit 2))"
proof -
  have t: "(\<not> path_exists fs (Path (input_path a)) \<or> \<not> path_exists fs (Path (hef a))
         \<or> \<not> path_exists fs (Path (postprocess_so a)) \<longrightarrow> tiling_exit fm g c fs = Some 1)
      \<and> (validate_parameters fm a \<noteq> Inr () \<longrightarrow> tiling_exit fm g c fs = Some 1)
      \<and> (fst (tiling_init fm a fs) \<noteq> Inr () \<longrightarrow> tiling_exit fm g c fs = Some 1)
      \<and> (parse_launch g (tiling_description fm a) \<noteq> Inr () \<longrightarrow> tiling_exit fm g c fs = Some 1)
      \<and> (set_state_playing g = FAILURE \<longrightarrow> tiling_exit fm g c fs = Some 1)
      \<and> (fst (tiling_init fm a fs) = Inr () \<and> parse_launch g (tiling_description fm a) = Inr ()
            \<and> set_state_playing g \<noteq> FAILURE \<and> ends_with_eos (events g) \<longrightarrow>
          tiling_exit fm g c fs = Some 0)
      \<and> (tiling_exit fm g c fs = None \<or> tiling_exit fm g c fs = Some 0
           \<or> tiling_exit fm g c fs = Some 1)"
    if p: "tiling_parse_args c = Inr a"
      and u: "uninterrupted (parse_launch g (tiling_description fm a))"
  proof -
    have missing: "fst (tiling_init fm a fs) \<noteq> Inr ()"
      if "\<not> path_exists fs (Path (input_path a)) \<or> \<not> path_exists fs (Path (hef a))
         \<or> \<not> path_exists fs (Path (postprocess_so a))"
      using missing_file_fails [OF that] by (intro tiling_init_fails) auto
    have params: "fst (tiling_init fm a fs) \<noteq> Inr ()" if "validate_parameters fm a \<noteq> Inr ()"
      using that by (intro tiling_init_fails) simp
    show ?thesis
      unfolding tiling_exit_parsed [OF p u]
      using missing params ends_with_eos_ends [of "events g"] by auto
  qed
  have q: "(\<not> path_exists fs (Path (input_path a')) \<or> \<not> path_exists fs (Path (hef a'))
         \<or> \<not> path_exists fs (Path (postprocess_so a')) \<longrightarrow> preserve_exit fm g c' fs = Some 1)
      \<and> (fst (preserve_init a' fs) \<noteq> Inr () \<longrightarrow> preserve_exit fm g c' fs = Some 1)
      \<and> (parse_launch g (preserve_description fm a') \<noteq> Inr () \<longrightarrow> preserve_exit fm g c' fs = Some 1)
      \<and> (set_state_playing g = FAILURE \<longrightarrow> preserve_exit fm g c' fs = Some 1)
      \<and> (fst (preserve_init a' fs) = Inr () \<and> parse_launch g (preserve_description fm a') = Inr ()
            \<and> set_state_playing g \<noteq> FAILURE \<and> ends_with_eos (events g) \<longrightarrow>
          preserve_exit fm g c' fs = Some 0)
      \<and> (preserve_exit fm g c' fs = None \<or> preserve_exit fm g c' fs = Some 0
           \<or> preserve_exit fm g c' fs = Some 1)"
    if p: "preserve_parse_args c' = Inr a'"
      and u: "uninterrupted (parse_launch g (preserve_description fm a'))"
  proof -
    have missing: "fst (preserve_init a' fs) \<noteq> Inr ()"
      if "\<not> path_exists fs (Path (input_path a')) \<or> \<not> path_exists fs (Path (hef a'))
         \<or> \<not> path_exists fs (Path (postprocess_so a'))"
      using missing_file_fails [OF that] by (auto simp: preserve_init_def)
    show ?thesis
      unfolding preserve_exit_parsed [OF p u]
      using missing ends_with_eos_ends [of "events g"] by auto
  qed
  from t q tiling_exit_unparsed [of c r fm g fs] preserve_exit_unparsed [of c' r' fm g fs]
  show ?thesis by blast
qed

text \<open>
  C3 as stated: the exit status is 0 or 1 for every invocation. This fails in two ways.
  A command line without the required \<^verbatim>\<open>--input\<close> leaves through the \<^verbatim>\<open>SystemExit\<close> of
  \<^verbatim>\<open>argparse\<close>, which \<^verbatim>\<open>main\<close> does not catch, and the status is 2. And an interrupt
  that arrives while the graph is built is caught neither by \<^verbatim>\<open>run\<close>, whose handler
  covers \<^verbatim>\<open>loop.run()\<close> only, nor by \<^verbatim>\<open>main\<close>: \<^verbatim>\<open>main\<close> returns no status at all, and
  the process ends as the interpreter ends one on an uncaught \<^verbatim>\<open>KeyboardInterrupt\<close>.
\<close>

theorem exit_status_two_counterexample:
  "tiling_exit example_format example_gst (example_cli\<lparr>cli_input := None\<rparr>) example_fs = Some 2
   \<and> preserve_exit example_format example_gst
        \<lparr>cli_help = False, cli_input = None, cli_output = Some ''out/result.mp4'',
         cli_hef = None, cli_postprocess_so = None, cli_bitrate = None, cli_debug = False,
         cli_inference_width = None, cli_inference_height = None\<rparr> example_fs = Some 2
   \<and> map_option fst
        (tiling_main example_format (example_gst\<lparr>parse_launch := \<lambda>d. Inl KeyboardInterrupt\<rparr>)
           example_cli example_fs) = Some (Inl KeyboardInterrupt)
   \<and> tiling_exit example_format (example_gst\<lparr>parse_launch := \<lambda>d. Inl KeyboardInterrupt\<rparr>)
        example_cli example_fs \<noteq> Some 0
   \<and> tiling_exit example_format (example_gst\<lparr>parse_launch := \<lambda>d. Inl KeyboardInterrupt\<rparr>)
        example_cli example_fs \<noteq> Some 1"
proof -
  have i: "tiling_main example_format (example_gst\<lparr>parse_launch := \<lambda>d. Inl KeyboardInterrupt\<rparr>)
             example_cli example_fs
           = Some (Inl KeyboardInterrupt,
               snd (tiling_build_pipeline example_format example_args
                      (print_all (tiling_banner example_format example_args) new_controller)),
               example_fs)"
    by (simp add: tiling_main_def example_cli_parsed example_init tiling_run_eq)
  show ?thesis
    unfolding i tiling_exit_def
    by (simp add: tiling_main_def tiling_parse_args_def example_cli_def
        preserve_exit_def preserve_main_def preserve_parse_args_def)
qed

theorem exit_status_of_invocation_witness:
  "tiling_parse_args example_cli = Inr example_args
   \<and> uninterrupted (parse_launch example_gst (tiling_description example_format example_args))
   \<and> ends_with_eos (events example_gst)
   \<and> tiling_exit example_format example_gst example_cli example_fs = Some 0
   \<and> tiling_parse_args (example_cli\<lparr>cli_tiles_x := Some 21\<rparr>) = Inr (example_args\<lparr>tiles_x := 21\<rparr>)
   \<and> validate_parameters example_format (example_args\<lparr>tiles_x := 21\<rparr>) \<noteq> Inr ()
   \<and> tiling_exit example_format example_gst (example_cli\<lparr>cli_tiles_x := Some 21\<rparr>) example_fs = Some 1
   \<and> tiling_parse_args (example_cli\<lparr>cli_help := True\<rparr>) = Inl (SystemExit 0)
   \<and> tiling_exit example_format example_gst (example_cli\<lparr>cli_help := True\<rparr>) example_fs = Some 0"
proof -
  have ph: "tiling_parse_args (example_cli\<lparr>cli_help := True\<rparr>) = Inl (SystemExit 0)"
    by (simp add: tiling_parse_args_def)
  have p21: "tiling_parse_args (example_cli\<lparr>cli_tiles_x := Some 21\<rparr>)
               = Inr (example_args\<lparr>tiles_x := 21\<rparr>)"
    by (simp add: tiling_parse_args_def example_cli_def example_args_def with_default_def
        store_true_def)
  have v21: "validate_parameters example_format (example_args\<lparr>tiles_x := 21\<rparr>) \<noteq> Inr ()"
    by (simp add: validate_parameters_def)
  have u: "uninterrupted (parse_launch example_gst d)" for d
    by (simp add: example_gst_def)
  have e: "ends_with_eos (events example_gst)"
    by (simp add: ends_with_eos_def example_gst_def)
  have ok: "fst (tiling_init example_format example_args example_fs) = Inr ()
      \<and> parse_launch example_gst (tiling_description example_format example_args) = Inr ()
      \<and> set_state_playing example_gst \<noteq> FAILURE"
    by (simp add: example_init example_gst_def)
  from exit_status_of_invocation
         [where c = example_cli and a = example_args and g = example_gst
            and fm = example_format and fs = example_fs]
       example_cli_parsed u ok e
  have 0: "tiling_exit example_format example_gst example_cli example_fs = Some 0" by blast
  from exit_status_of_invocation
         [where c = "example_cli\<lparr>cli_tiles_x := Some 21\<rparr>"
            and a = "example_args\<lparr>tiles_x := 21\<rparr>" and g = example_gst
            and fm = example_format and fs = example_fs] p21 v21 u
  have 1: "tiling_exit example_format example_gst (example_cli\<lparr>cli_tiles_x := Some 21\<rparr>)
             example_fs = Some 1" by blast
  from exit_status_of_invocation
         [where c = "example_cli\<lparr>cli_help := True\<rparr>" and g = example_gst
            and fm = example_format and fs = example_fs and r = "SystemExit 0"] ph
  have 2: "tiling_exit example_format example_gst (example_cli\<lparr>cli_help := True\<rparr>)
             example_fs = Some 0" by simp
  from example_cli_parsed u e 0 p21 v21 1 ph 2 show ?thesis by blast
qed

lemma validate_paths_success:
  assumes "fst (validate_paths a fs) = Inr ()"
  shows "path_exists fs (Path (input_path a)) \<and> path_exists fs (Path (hef a))
    \<and> path_exists fs (Path (postprocess_so a))"
    and "is_dir (snd (validate_paths a fs)) (parent (Path (output_path a)))"
    and "stat fs q \<noteq> None \<Longrightarrow> stat (snd (validate_paths a fs)) q = stat fs q"
proof -
  show files: "path_exists fs (Path (input_path a)) \<and> path_exists fs (Path (hef a))
    \<and> path_exists fs (Path (postprocess_so a))"
    using assms by (auto simp: validate_paths_def split: if_splits)
  then have vp: "validate_paths a fs =
     (if parent (Path (output_path a)) \<noteq> Path ''.''
      then mkdir True True fs (parent (Path (output_path a))) else (Inr (), fs))"
    by (simp add: validate_paths_files_exist)
  show "is_dir (snd (validate_paths a fs)) (parent (Path (output_path a)))"
  proof (cases "parent (Path (output_path a)) = Path ''.''")
    case True
    with vp show ?thesis by (simp add: is_dir_def stat_def example_paths)
  next
    case False
    with vp assms show ?thesis by (simp add: mkdir_ok_dir [OF mkdir_props])
  qed
  show "stat (snd (validate_paths a fs)) q = stat fs q" if "stat fs q \<noteq> None"
    using vp that by (simp add: mkdir_ok_keeps [OF mkdir_props])
qed

text \<open>
  C10, amended. In the tiling script path validation runs before parameter validation.
  For every argument set on which path validation succeeds (the three files exist and
  the output directory exists or can be created) and whose tiling or aggregation
  parameters are out of range: the constructor fails with the \<^verbatim>\<open>ValueError\<close> of
  parameter validation, \<^verbatim>\<open>main\<close> returns 1, and the file system is the one path
  validation left: the output directory exists, newly created when it did not exist
  before, so the validation-error path has a side effect.
\<close>

theorem parameter_error_after_directory_created:
  assumes "tiling_parse_args c = Inr a"
    and "fst (validate_paths a fs) = Inr ()"
    and "validate_parameters fm a \<noteq> Inr ()"
  shows "(\<exists>m. tiling_init fm a fs = (Inl (ValueError m), snd (validate_paths a fs)))
    \<and> is_dir (snd (validate_paths a fs)) (parent (Path (output_path a)))
    \<and> (\<not> path_exists fs (parent (Path (output_path a))) \<longrightarrow> snd (validate_paths a fs) \<noteq> fs)
    \<and> (\<forall>q. path_exists fs q \<longrightarrow> stat (snd (validate_paths a fs)) q = stat fs q)
    \<and> (\<exists>st. tiling_main fm g c fs = Some (Inr 1, st, snd (validate_paths a fs)))
    \<and> tiling_exit fm g c fs = Some 1"
proof -
  from assms(3) obtain m where m: "validate_parameters fm a = Inl (ValueError m)"
    using validate_parameters_error by blast
  obtain fs' where vp: "validate_paths a fs = (Inr (), fs')"
    using assms(2) by (cases "validate_paths a fs") auto
  from vp m have init: "tiling_init fm a fs = (Inl (ValueError m), fs')"
    by (simp add: tiling_init_def)
  have dir: "is_dir fs' (parent (Path (output_path a)))"
    using validate_paths_success(2) [OF assms(2)] vp by simp
  have changed: "fs' \<noteq> fs" if "\<not> path_exists fs (parent (Path (output_path a)))"
    using that dir by (auto simp: path_exists_def is_dir_def)
  have kept: "stat fs' q = stat fs q" if "path_exists fs q" for q
    using validate_paths_success(3) [OF assms(2), of q] that vp by (simp add: path_exists_def)
  have main: "tiling_main fm g c fs = Some (Inr 1, tiling_except (ValueError m) new_controller, fs')"
    using assms(1) init by (simp add: tiling_main_def)
  then have "tiling_exit fm g c fs = Some 1"
    by (simp add: tiling_exit_def)
  with init dir changed kept main vp show ?thesis by auto
qed

lemma fresh_files:
  "path_exists fresh_fs (Path (input_path a))" if "input_path a = ''in.mp4''"
  using that by (simp add: fresh_fs_def example_paths path_exists_def stat_def)

theorem parameter_error_after_directory_created_witness:
  "tiling_parse_args (example_cli\<lparr>cli_tiles_x := Some 0\<rparr>) = Inr (example_args\<lparr>tiles_x := 0\<rparr>)
   \<and> fst (validate_paths (example_args\<lparr>tiles_x := 0\<rparr>) fresh_fs) = Inr ()
   \<and> validate_parameters example_format (example_args\<lparr>tiles_x := 0\<rparr>) \<noteq> Inr ()
   \<and> \<not> path_exists fresh_fs (Path ''out'')
   \<and> is_dir (snd (validate_paths (example_args\<lparr>tiles_x := 0\<rparr>) fresh_fs)) (Path ''out'')
   \<and> tiling_exit example_format example_gst (example_cli\<lparr>cli_tiles_x := Some 0\<rparr>) fresh_fs = Some 1"
proof -
  let ?a = "example_args\<lparr>tiles_x := 0\<rparr>"
  have p: "tiling_parse_args (example_cli\<lparr>cli_tiles_x := Some 0\<rparr>) = Inr ?a"
    by (simp add: tiling_parse_args_def example_cli_def example_args_def with_default_def
        store_true_def)
  have files: "path_exists fresh_fs (Path (input_path ?a))" "path_exists fresh_fs (Path (hef ?a))"
    "path_exists fresh_fs (Path (postprocess_so ?a))"
    by (simp_all add: example_args_def fresh_fs_def example_paths path_exists_def stat_def)
  have out: "parent (Path (output_path ?a)) = Path ''out''"
    by (simp add: example_args_def example_paths parent_def)
  have absent: "stat fresh_fs (Path ''out'') = None"
    by (simp add: fresh_fs_def example_paths stat_def)
  have "stat fresh_fs (parent (Path ''out'')) = Some Dir"
    by (simp add: example_paths stat_def parent_def)
  with absent have "mkdir True True fresh_fs (Path ''out'') = (Inr (), fresh_fs(Path ''out'' \<mapsto> Dir))"
    by (rule mkdir_parent_dir)
  with out have vp: "validate_paths ?a fresh_fs = (Inr (), fresh_fs(Path ''out'' \<mapsto> Dir))"
    by (simp add: validate_paths_files_exist [OF files] example_paths)
  have v: "validate_parameters example_format ?a \<noteq> Inr ()"
    by (simp add: validate_parameters_def)
  from parameter_error_after_directory_created [OF p _ v, of fresh_fs example_gst] vp out absent p v
  show ?thesis by (simp add: path_exists_def)
qed

text \<open>
  C10 as stated: whenever the three files exist and a parameter is out of range, the
  output directory is created and the run fails with a validation error. This fails
  when the output directory cannot be created: with the output below the regular file
  \<^verbatim>\<open>in.mp4\<close>, \<^verbatim>\<open>mkdir\<close> raises \<^verbatim>\<open>FileExistsError\<close>, the parameters are never
  validated, and no directory is created.
\<close>

theorem directory_not_created_counterexample:
  "path_exists example_fs (Path (input_path blocked_args))
   \<and> path_exists example_fs (Path (hef blocked_args))
   \<and> path_exists example_fs (Path (postprocess_so blocked_args))
   \<and> validate_parameters example_format blocked_args \<noteq> Inr ()
   \<and> tiling_init example_format blocked_args example_fs
       = (Inl (FileExistsError ''in.mp4''), example_fs)
   \<and> \<not> is_dir example_fs (parent (Path (output_path blocked_args)))"
proof -
  have files: "path_exists example_fs (Path (input_path blocked_args))"
    "path_exists example_fs (Path (hef blocked_args))"
    "path_exists example_fs (Path (postprocess_so blocked_args))"
    by (simp_all add: blocked_args_def example_args_def example_fs_def example_paths
        path_exists_def stat_def)
  have out: "parent (Path (output_path blocked_args)) = Path ''in.mp4''"
    by (simp add: blocked_args_def example_args_def example_paths parent_def Path_def
        path_root_def)
  have blocked: "stat example_fs (Path ''in.mp4'') = Some File"
    by (simp add: example_fs_def example_paths stat_def)
  then have "mkdir True True example_fs (Path ''in.mp4'')
               = (Inl (FileExistsError ''in.mp4''), example_fs)"
    by (simp add: mkdir_exists example_paths path_str_def)
  with out have "validate_paths blocked_args example_fs
               = (Inl (FileExistsError ''in.mp4''), example_fs)"
    by (simp add: validate_paths_files_exist [OF files] example_paths)
  then have init: "tiling_init example_format blocked_args example_fs
       = (Inl (FileExistsError ''in.mp4''), example_fs)"
    by (simp add: tiling_init_def)
  have v: "validate_parameters example_format blocked_args \<noteq> Inr ()"
    by (simp add: validate_parameters_def blocked_args_def)
  from files v init out blocked show ?thesis by (simp add: is_dir_def)
qed

subsection \<open>Graph descriptions\<close>

lemma py_split_aux_space:
  "is_space c \<Longrightarrow> py_split_aux w (xs @ c # ys) = py_split_aux w xs @ py_split_aux [] ys"
  by (induction xs arbitrary: w) simp_all

lemma py_split_aux_word:
  "no_space t \<Longrightarrow> py_split_aux w (t @ rest) = py_split_aux (w @ t) rest"
  by (induction t arbitrary: w) (simp_all add: no_space_def)

lemma py_split_aux_word_end:
  "no_space t \<Longrightarrow> py_split_aux w t = (if w @ t = [] then [] else [w @ t])"
  using py_split_aux_word [of t w "[]"] by simp

lemma newline_is_space: "is_space CHR 0x0A"
  by (simp add: is_space_def)

lemma py_split_lines: "py_split (text_lines ls) = concat (map py_split ls)"
proof (induction ls)
  case Nil
  show ?case by (simp add: text_lines_def py_split_def)
next
  case (Cons l ls)
  have "py_split (text_lines (l # ls)) = py_split_aux [] ([] @ CHR 0x0A # (l @ text_lines ls))"
    by (simp add: text_lines_def py_split_def)
  also have "\<dots> = py_split_aux [] (l @ text_lines ls)"
    by (subst py_split_aux_space) (simp_all add: newline_is_space)
  also have "\<dots> = py_split l @ py_split (text_lines ls)"
  proof (cases ls)
    case Nil
    then show ?thesis by (simp add: text_lines_def py_split_def)
  next
    case (Cons m ms)
    then have "text_lines ls = CHR 0x0A # (m @ text_lines ms)"
      by (simp add: text_lines_def)
    moreover have "py_split (CHR 0x0A # (m @ text_lines ms)) = py_split (m @ text_lines ms)"
      by (simp add: py_split_def newline_is_space)
    ultimately show ?thesis
      using py_split_aux_space [of "CHR 0x0A" "[]" l "m @ text_lines ms"]
      by (simp add: py_split_def newline_is_space)
  qed
  finally show ?case using Cons.IH by simp
qed

lemma py_split_aux_words:
  "no_space w \<Longrightarrow> list_all (\<lambda>t. t \<noteq> [] \<and> no_space t) (py_split_aux w s)"
  by (induction s arbitrary: w) (simp_all add: no_space_def)

lemma py_split_join:
  "list_all (\<lambda>t. t \<noteq> [] \<and> no_space t) ws \<Longrightarrow> py_split (py_join '' '' ws) = ws"
proof (induction "'' ''" ws rule: py_join.induct)
  case 1
  show ?case by (simp add: py_split_def)
next
  case (2 x)
  then show ?case by (simp add: py_split_def py_split_aux_word_end)
next
  case (3 x y ys)
  have "py_split (py_join '' '' (x # y # ys)) = py_split_aux [] (x @ CHR '' '' # py_join '' '' (y # ys))"
    by (simp add: py_split_def)
  also have "\<dots> = py_split_aux [] x @ py_split_aux [] (py_join '' '' (y # ys))"
    by (rule py_split_aux_space) (simp add: is_space_def)
  also have "\<dots> = x # y # ys"
    using 3 by (simp add: py_split_aux_word_end py_split_def)
  finally show ?case .
qed

lemma py_split_description:
  "py_split (py_join '' '' (py_split s)) = py_split s"
proof (rule py_split_join)
  have "no_space []" by (simp add: no_space_def)
  then show "list_all (\<lambda>t. t \<noteq> [] \<and> no_space t) (py_split s)"
    unfolding py_split_def by (rule py_split_aux_words)
qed

lemma nat_digits_no_space: "no_space (nat_digits n)"
proof (induction n rule: nat_digits.induct)
  case (1 n)
  have d: "\<not> is_space (''0123456789'' ! k)" if "k < 10" for k
  proof -
    from that have "k \<in> {0, 1, 2, 3, 4, 5, 6, 7, 8, 9}" by auto
    then show ?thesis by (auto simp: is_space_def)
  qed
  show ?case
  proof (cases "n < 10")
    case True
    then show ?thesis by (subst nat_digits.simps) (simp add: no_space_def d)
  next
    case False
    with 1 have "no_space (nat_digits (n div 10))" by simp
    moreover have "\<not> is_space (''0123456789'' ! (n mod 10))" by (rule d) simp
    ultimately show ?thesis using False
      by (subst nat_digits.simps) (simp add: no_space_def)
  qed
qed

lemma str_int_no_space: "no_space (str_int i)"
  using nat_digits_no_space by (simp add: str_int_def no_space_def is_space_def)

lemma py_split_aux_str_int:
  "py_split_aux w (str_int i) = (if w @ str_int i = [] then [] else [w @ str_int i])"
  by (rule py_split_aux_word_end) (rule str_int_no_space)

lemma py_split_aux_float_repr:
  "no_space (float_repr fm x) \<Longrightarrow>
   py_split_aux w (float_repr fm x) = (if w @ float_repr fm x = [] then [] else [w @ float_repr fm x])"
  by (rule py_split_aux_word_end)

lemma py_split_aux_quote_space:
  "py_split_aux w (s @ CHR 0x22 # CHR '' '' # rest) = py_split_aux w (s @ ''\"'') @ py_split_aux [] rest"
  using py_split_aux_space [of "CHR '' ''" w "s @ ''\"''" rest] by (simp add: is_space_def)

lemma py_split_aux_blank:
  "py_split_aux w (s @ CHR '' '' # rest) = py_split_aux w s @ py_split_aux [] rest"
  by (rule py_split_aux_space) (simp add: is_space_def)

lemmas split_any =
  py_split_def is_space_def py_split_aux_quote_space py_split_aux_blank py_split_aux_word
  py_split_aux_str_int py_split_aux_float_repr str_int_no_space queue_line_def

lemma tiling_words_any:
  assumes "\<And>x. no_space (float_repr fm x)"
  shows "py_split (tiling_pipeline_text fm a) =
    [''filesrc'']
    @ py_split_aux ''location=\"'' (input_path a @ ''\"'')
    @ [''!'',
     ''qtdemux'', ''!'', ''h264parse'', ''!'', ''avdec_h264'', ''!'', ''videoconvert'', ''!'',
     ''video/x-raw,format=RGB'', ''!'',
     ''hailotilecropper'', ''name=cropper'',
     ''tiles-along-x-axis='' @ str_int (tiles_x a),
     ''tiles-along-y-axis='' @ str_int (tiles_y a),
     ''overlap-x-axis='' @ float_repr fm (overlap_x a),
     ''overlap-y-axis='' @ float_repr fm (overlap_y a),
     ''tiling-mode='' @ str_int (tiling_mode a),
     ''hailotileaggregator'', ''name=aggregator'', ''flatten-detections=true'',
     ''iou-threshold='' @ float_repr fm (iou_threshold a),
     ''border-threshold='' @ float_repr fm (border_threshold a),
     ''remove-large-landscape='' @ str_bool_lower (remove_large_landscape a),
     ''cropper.src_0'', ''!'',
     ''queue'', ''leaky=no'', ''max-size-buffers=30'', ''max-size-bytes=0'', ''max-size-time=0'', ''!'',
     ''aggregator.sink_0'',
     ''cropper.src_1'', ''!'',
     ''queue'', ''leaky=no'', ''max-size-buffers=30'', ''max-size-bytes=0'', ''max-size-time=0'', ''!'',
     ''videoscale'', ''!'',
     ''video/x-raw,width='' @ str_int (tile_width a) @ '',height='' @ str_int (tile_height a), ''!'',
     ''queue'', ''leaky=no'', ''max-size-buffers=30'', ''max-size-bytes=0'', ''max-size-time=0'', ''!'',
     ''hailonet'']
    @ py_split_aux ''hef-path='' (hef a)
    @ [''is-active=true'', ''!'',
     ''queue'', ''leaky=no'', ''max-size-buffers=30'', ''max-size-bytes=0'', ''max-size-time=0'', ''!'',
     ''hailofilter'']
    @ py_split_aux ''so-path='' (postprocess_so a)
    @ [''qos=false'', ''!'',
     ''queue'', ''leaky=no'', ''max-size-buffers=30'', ''max-size-bytes=0'', ''max-size-time=0'', ''!'',
     ''aggregator.sink_1'',
     ''aggregator.src'', ''!'',
     ''queue'', ''leaky=no'', ''max-size-buffers=30'', ''max-size-bytes=0'', ''max-size-time=0'', ''!'',
     ''hailooverlay'', ''!'',
     ''queue'', ''leaky=no'', ''max-size-buffers=30'', ''max-size-bytes=0'', ''max-size-time=0'', ''!'',
     ''videoconvert'', ''!'',
     ''x264enc'', ''bitrate='' @ str_int (bitrate a), ''speed-preset=ultrafast'',
     ''tune=zerolatency'', ''key-int-max=60'', ''!'',
     ''h264parse'', ''!'', ''mp4mux'', ''!'',
     ''filesink'']
    @ py_split_aux ''location=\"'' (output_path a @ ''\"'')
    @ [''sync=false'']"

  unfolding tiling_pipeline_text_def py_split_lines
  using assms by (cases "remove_large_landscape a")
    (simp_all add: split_any ENCODING_PRESET_def str_bool_lower_def)

lemma preserve_words_any:
  assumes "\<And>x. no_space (float_repr fm x)"
  shows "py_split (preserve_pipeline_text fm a) =
    [''filesrc'']
    @ py_split_aux ''location=\"'' (input_path a @ ''\"'')
    @ [''!'',
     ''qtdemux'', ''!'', ''h264parse'', ''!'', ''avdec_h264'', ''!'', ''videoconvert'', ''!'',
     ''tee'', ''name=t'', ''hailomuxer'', ''name=mux'',
     ''t.'', ''!'',
     ''queue'', ''leaky=no'', ''max-size-buffers=30'', ''max-size-bytes=0'', ''max-size-time=0'', ''!'',
     ''mux.'',
     ''t.'', ''!'', ''videoscale'', ''!'',
     ''video/x-raw,width='' @ str_int (inference_width a) @ '',height=''
        @ str_int (inference_height a), ''!'',
     ''queue'', ''leaky=no'', ''max-size-buffers=30'', ''max-size-bytes=0'', ''max-size-time=0'', ''!'',
     ''hailonet'']
    @ py_split_aux ''hef-path='' (hef a)
    @ [''is-active=true'',
     ''nms-score-threshold='' @ float_repr fm NMS_SCORE_THRESHOLD,
     ''nms-iou-threshold='' @ float_repr fm NMS_IOU_THRESHOLD,
     ''output-format-type=HAILO_FORMAT_TYPE_FLOAT32'', ''!'',
     ''queue'', ''leaky=no'', ''max-size-buffers=30'', ''max-size-bytes=0'', ''max-size-time=0'', ''!'',
     ''hailofilter'']
    @ py_split_aux ''so-path='' (postprocess_so a)
    @ [''qos=false'', ''!'',
     ''mux.'',
     ''mux.'', ''!'',
     ''queue'', ''leaky=no'', ''max-size-buffers=30'', ''max-size-bytes=0'', ''max-size-time=0'', ''!'',
     ''hailooverlay'', ''!'',
     ''queue'', ''leaky=no'', ''max-size-buffers=30'', ''max-size-bytes=0'', ''max-size-time=0'', ''!'',
     ''videoconvert'', ''!'',
     ''x264enc'', ''bitrate='' @ str_int (bitrate a), ''speed-preset=ultrafast'',
     ''tune=zerolatency'', ''key-int-max=60'', ''!'',
     ''h264parse'', ''!'', ''mp4mux'', ''!'',
     ''filesink'']
    @ py_split_aux ''location=\"'' (output_path a @ ''\"'')
    @ [''sync=false'']"

  unfolding preserve_pipeline_text_def py_split_lines nms_params_def
  using assms by (simp add: split_any ENCODING_PRESET_def)

lemma gst_quoted_run:
  "unquoted t \<Longrightarrow> gst_words_aux Quoted False v (t @ rest) = gst_words_aux Quoted False (v @ t) rest"
  by (induction t arbitrary: v) (simp_all add: unquoted_def)

lemma gst_plain_run:
  "plain t \<Longrightarrow> l \<noteq> Quoted \<Longrightarrow>
   gst_words_aux l False v (t @ CHR '' '' # rest)
     = (if v @ t = [] then [] else [v @ t]) @ gst_words_aux Name False [] rest"
proof (induction t arbitrary: l v)
  case Nil
  then show ?case by (simp add: is_space_def)
next
  case (Cons c t)
  from Cons.prems have c: "\<not> is_space c" "c \<noteq> CHR 0x22" "c \<noteq> CHR 0x5C" and t: "plain t"
    by (simp_all add: plain_def no_space_def unquoted_def)
  show ?case
    using c Cons.prems(2) Cons.IH [OF t] by simp
qed

lemma gst_plain_end:
  "plain t \<Longrightarrow> l \<noteq> Quoted \<Longrightarrow>
   gst_words_aux l False v t = (if v @ t = [] then [] else [v @ t])"
proof (induction t arbitrary: l v)
  case Nil
  then show ?case by simp
next
  case (Cons c t)
  from Cons.prems have c: "\<not> is_space c" "c \<noteq> CHR 0x22" "c \<noteq> CHR 0x5C" and t: "plain t"
    by (simp_all add: plain_def no_space_def unquoted_def)
  show ?case
    using c Cons.prems(2) Cons.IH [OF t] by simp
qed

lemma py_join_cons: "ys \<noteq> [] \<Longrightarrow> py_join sep (x # ys) = x @ sep @ py_join sep ys"
  by (cases ys) simp_all

lemma gst_words_plain:
  "plain t \<Longrightarrow> t \<noteq> [] \<Longrightarrow> R \<noteq> [] \<Longrightarrow>
   gst_words_aux Name False [] (py_join '' '' (t # R)) = t # gst_words_aux Name False [] (py_join '' '' R)"
  using gst_plain_run [of t Name "[]" "py_join '' '' R"] by (simp add: py_join_cons)

lemma gst_words_plain_last:
  "plain t \<Longrightarrow> t \<noteq> [] \<Longrightarrow> gst_words_aux Name False [] (py_join '' '' [t]) = [t]"
  using gst_plain_end [of t Name "[]"] by simp

lemma py_split_aux_prefix: "w \<noteq> [] \<Longrightarrow> \<exists>t ts. py_split_aux w s = (w @ t) # ts"
proof (induction s arbitrary: w)
  case Nil
  then show ?case by simp
next
  case (Cons c s)
  show ?case
  proof (cases "is_space c")
    case True
    with Cons.prems show ?thesis by simp
  next
    case False
    from Cons.IH [of "w @ [c]"] obtain t ts where "py_split_aux (w @ [c]) s = ((w @ [c]) @ t) # ts"
      by auto
    with False show ?thesis by simp
  qed
qed

lemma py_split_aux_nonempty: "\<not> is_space q \<Longrightarrow> py_split_aux w (s @ [q]) \<noteq> []"
  by (induction s arbitrary: w) simp_all

lemma joined_prefix:
  "\<exists>z. py_join '' '' (py_split_aux w s @ R) = w @ z"
proof (cases "w = []")
  case True
  then show ?thesis by simp
next
  case False
  from py_split_aux_prefix [OF False, of s] obtain t ts where p: "py_split_aux w s = (w @ t) # ts"
    by auto
  show ?thesis
    by (cases "ts @ R") (simp_all add: p)
qed

lemma gst_quoted_words:
  assumes "unquoted s" and "R \<noteq> []"
  shows "gst_words_aux Quoted False (v @ w)
           (drop (length w) (py_join '' '' (py_split_aux w (s @ [CHR 0x22]) @ R)))
         = (v @ py_join '' '' (py_split_aux w (s @ [CHR 0x22])))
           # gst_words_aux Name False [] (py_join '' '' R)"
  using assms(1)
proof (induction s arbitrary: v w)
  case Nil
  with assms(2) show ?case by (simp add: is_space_def py_join_cons)
next
  case (Cons c s)
  from Cons.prems have c: "c \<noteq> CHR 0x22" "c \<noteq> CHR 0x5C" and s: "unquoted s"
    by (simp_all add: unquoted_def)
  have ne: "py_split_aux u (s @ [CHR 0x22]) \<noteq> []" for u
    by (rule py_split_aux_nonempty) (simp add: is_space_def)
  show ?case
  proof (cases "is_space c")
    case True
    show ?thesis
    proof (cases "w = []")
      case True
      with \<open>is_space c\<close> Cons.IH [OF s, of v "[]"] show ?thesis by simp
    next
      case False
      with \<open>is_space c\<close> ne [of "[]"] Cons.IH [OF s, of "v @ w @ '' ''" "[]"]
      show ?thesis by (simp add: py_join_cons)
    qed
  next
    case False
    from joined_prefix [of "w @ [c]" "s @ [CHR 0x22]" R] obtain z
      where z: "py_join '' '' (py_split_aux (w @ [c]) (s @ [CHR 0x22]) @ R) = (w @ [c]) @ z"
      by auto
    from False c Cons.IH [OF s, of v "w @ [c]"] show ?thesis
      by (simp add: z)
  qed
qed

lemma gst_words_location:
  assumes "unquoted s" and "R \<noteq> []"
  shows "gst_words_aux Name False [] (py_join '' '' (py_split_aux ''location=\"'' (s @ ''\"'') @ R))
         = py_join '' '' (py_split_aux ''location=\"'' (s @ ''\"''))
           # gst_words_aux Name False [] (py_join '' '' R)"
proof -
  from joined_prefix [of "''location=\"''" "s @ ''\"''" R] obtain z
    where z: "py_join '' '' (py_split_aux ''location=\"'' (s @ ''\"'') @ R) = ''location=\"'' @ z"
    by auto
  from gst_quoted_words [OF assms, of "[]" "''location=\"''"] show ?thesis
    by (simp add: z is_space_def)
qed

lemma location_word: "py_join '' '' (py_split_aux ''location=\"'' s) \<noteq> ''queue''"
  using joined_prefix [of "''location=\"''" s "[]"] by auto

lemma plain_simps:
  "plain []"
  "plain (c # s) \<longleftrightarrow> \<not> is_space c \<and> c \<noteq> CHR 0x22 \<and> c \<noteq> CHR 0x5C \<and> plain s"
  "plain (s @ t) \<longleftrightarrow> plain s \<and> plain t"
  by (auto simp: plain_def no_space_def unquoted_def)

lemma py_split_aux_plain:
  "plain w \<Longrightarrow> unquoted s \<Longrightarrow> list_all (\<lambda>t. plain t \<and> t \<noteq> []) (py_split_aux w s)"
  by (induction s arbitrary: w) (auto simp: plain_def no_space_def unquoted_def)

lemma gst_words_segment:
  "list_all (\<lambda>t. plain t \<and> t \<noteq> []) H \<Longrightarrow> R \<noteq> [] \<Longrightarrow>
   gst_words_aux Name False [] (py_join '' '' (H @ R)) = H @ gst_words_aux Name False [] (py_join '' '' R)"
  by (induction H) (simp_all add: gst_words_plain del: py_join.simps gst_words_aux.simps)

lemma nat_digits_unquoted: "unquoted (nat_digits n)"
proof (induction n rule: nat_digits.induct)
  case (1 n)
  have d: "''0123456789'' ! k \<noteq> CHR 0x22 \<and> ''0123456789'' ! k \<noteq> CHR 0x5C" if "k < 10" for k
  proof -
    from that have "k \<in> {0, 1, 2, 3, 4, 5, 6, 7, 8, 9}" by auto
    then show ?thesis by auto
  qed
  show ?case
  proof (cases "n < 10")
    case True
    then show ?thesis by (subst nat_digits.simps) (simp add: unquoted_def d)
  next
    case False
    with 1 have "unquoted (nat_digits (n div 10))" by simp
    moreover have "''0123456789'' ! (n mod 10) \<noteq> CHR 0x22 \<and> ''0123456789'' ! (n mod 10) \<noteq> CHR 0x5C"
      by (rule d) simp
    ultimately show ?thesis using False
      by (subst nat_digits.simps) (simp add: unquoted_def)
  qed
qed

lemma str_int_plain: "plain (str_int i)"
  using nat_digits_unquoted str_int_no_space [of i]
  by (simp add: plain_def str_int_def unquoted_def)

lemmas gst_scan =
  gst_words_def gst_words_plain gst_words_plain_last gst_words_segment gst_words_location
  plain_simps str_int_plain is_space_def py_split_aux_plain

lemma tiling_gst_words:
  assumes "\<And>x. plain (float_repr fm x)"
    and "unquoted (input_path a)" and "unquoted (output_path a)"
    and "unquoted (hef a)" and "unquoted (postprocess_so a)"
  shows "gst_words (tiling_description fm a) =
    [''filesrc'']
    @ [py_join '' '' (py_split_aux ''location=\"'' (input_path a @ ''\"'')), ''!'',
     ''qtdemux'', ''!'', ''h264parse'', ''!'', ''avdec_h264'', ''!'', ''videoconvert'', ''!'',
     ''video/x-raw,format=RGB'', ''!'',
     ''hailotilecropper'', ''name=cropper'',
     ''tiles-along-x-axis='' @ str_int (tiles_x a),
     ''tiles-along-y-axis='' @ str_int (tiles_y a),
     ''overlap-x-axis='' @ float_repr fm (overlap_x a),
     ''overlap-y-axis='' @ float_repr fm (overlap_y a),
     ''tiling-mode='' @ str_int (tiling_mode a),
     ''hailotileaggregator'', ''name=aggregator'', ''flatten-detections=true'',
     ''iou-threshold='' @ float_repr fm (iou_threshold a),
     ''border-threshold='' @ float_repr fm (border_threshold a),
     ''remove-large-landscape='' @ str_bool_lower (remove_large_landscape a),
     ''cropper.src_0'', ''!'',
     ''queue'', ''leaky=no'', ''max-size-buffers=30'', ''max-size-bytes=0'', ''max-size-time=0'', ''!'',
     ''aggregator.sink_0'',
     ''cropper.src_1'', ''!'',
     ''queue'', ''leaky=no'', ''max-size-buffers=30'', ''max-size-bytes=0'', ''max-size-time=0'', ''!'',
     ''videoscale'', ''!'',
     ''video/x-raw,width='' @ str_int (tile_width a) @ '',height='' @ str_int (tile_height a), ''!'',
     ''queue'', ''leaky=no'', ''max-size-buffers=30'', ''max-size-bytes=0'', ''max-size-time=0'', ''!'',
     ''hailonet'']
    @ py_split_aux ''hef-path='' (hef a)
    @ [''is-active=true'', ''!'',
     ''queue'', ''leaky=no'', ''max-size-buffers=30'', ''max-size-bytes=0'', ''max-size-time=0'', ''!'',
     ''hailofilter'']
    @ py_split_aux ''so-path='' (postprocess_so a)
    @ [''qos=false'', ''!'',
     ''queue'', ''leaky=no'', ''max-size-buffers=30'', ''max-size-bytes=0'', ''max-size-time=0'', ''!'',
     ''aggregator.sink_1'',
     ''aggregator.src'', ''!'',
     ''queue'', ''leaky=no'', ''max-size-buffers=30'', ''max-size-bytes=0'', ''max-size-time=0'', ''!'',
     ''hailooverlay'', ''!'',
     ''queue'', ''leaky=no'', ''max-size-buffers=30'', ''max-size-bytes=0'', ''max-size-time=0'', ''!'',
     ''videoconvert'', ''!'',
     ''x264enc'', ''bitrate='' @ str_int (bitrate a), ''speed-preset=ultrafast'',
     ''tune=zerolatency'', ''key-int-max=60'', ''!'',
     ''h264parse'', ''!'', ''mp4mux'', ''!'',
     ''filesink'']
    @ [py_join '' '' (py_split_aux ''location=\"'' (output_path a @ ''\"'')), ''sync=false'']"

proof -
  have f: "no_space (float_repr fm x)" for x
    using assms(1) [of x] by (simp add: plain_def)
  have h: "list_all (\<lambda>t. plain t \<and> t \<noteq> []) (py_split_aux ''hef-path='' (hef a))"
    "list_all (\<lambda>t. plain t \<and> t \<noteq> []) (py_split_aux ''so-path='' (postprocess_so a))"
    using assms(4,5) by (simp_all add: py_split_aux_plain plain_simps is_space_def)
  show ?thesis
    unfolding tiling_description_def tiling_words_any [OF f]
    using assms(1,2,3) h
    by (cases "remove_large_landscape a")
       (simp_all add: gst_scan str_bool_lower_def del: py_join.simps gst_words_aux.simps)
qed

lemma preserve_gst_words:
  assumes "\<And>x. plain (float_repr fm x)"
    and "unquoted (input_path a)" and "unquoted (output_path a)"
    and "unquoted (hef a)" and "unquoted (postprocess_so a)"
  shows "gst_words (preserve_description fm a) =
    [''filesrc'']
    @ [py_join '' '' (py_split_aux ''location=\"'' (input_path a @ ''\"'')), ''!'',
     ''qtdemux'', ''!'', ''h264parse'', ''!'', ''avdec_h264'', ''!'', ''videoconvert'', ''!'',
     ''tee'', ''name=t'', ''hailomuxer'', ''name=mux'',
     ''t.'', ''!'',
     ''queue'', ''leaky=no'', ''max-size-buffers=30'', ''max-size-bytes=0'', ''max-size-time=0'', ''!'',
     ''mux.'',
     ''t.'', ''!'', ''videoscale'', ''!'',
     ''video/x-raw,width='' @ str_int (inference_width a) @ '',height=''
        @ str_int (inference_height a), ''!'',
     ''queue'', ''leaky=no'', ''max-size-buffers=30'', ''max-size-bytes=0'', ''max-size-time=0'', ''!'',
     ''hailonet'']
    @ py_split_aux ''hef-path='' (hef a)
    @ [''is-active=true'',
     ''nms-score-threshold='' @ float_repr fm NMS_SCORE_THRESHOLD,
     ''nms-iou-threshold='' @ float_repr fm NMS_IOU_THRESHOLD,
     ''output-format-type=HAILO_FORMAT_TYPE_FLOAT32'', ''!'',
     ''queue'', ''leaky=no'', ''max-size-buffers=30'', ''max-size-bytes=0'', ''max-size-time=0'', ''!'',
     ''hailofilter'']
    @ py_split_aux ''so-path='' (postprocess_so a)
    @ [''qos=false'', ''!'',
     ''mux.'',
     ''mux.'', ''!'',
     ''queue'', ''leaky=no'', ''max-size-buffers=30'', ''max-size-bytes=0'', ''max-size-time=0'', ''!'',
     ''hailooverlay'', ''!'',
     ''queue'', ''leaky=no'', ''max-size-buffers=30'', ''max-size-bytes=0'', ''max-size-time=0'', ''!'',
     ''videoconvert'', ''!'',
     ''x264enc'', ''bitrate='' @ str_int (bitrate a), ''speed-preset=ultrafast'',
     ''tune=zerolatency'', ''key-int-max=60'', ''!'',
     ''h264parse'', ''!'', ''mp4mux'', ''!'',
     ''filesink'']
    @ [py_join '' '' (py_split_aux ''location=\"'' (output_path a @ ''\"'')), ''sync=false'']"

proof -
  have f: "no_space (float_repr fm x)" for x
    using assms(1) [of x] by (simp add: plain_def)
  have h: "list_all (\<lambda>t. plain t \<and> t \<noteq> []) (py_split_aux ''hef-path='' (hef a))"
    "list_all (\<lambda>t. plain t \<and> t \<noteq> []) (py_split_aux ''so-path='' (postprocess_so a))"
    using assms(4,5) by (simp_all add: py_split_aux_plain plain_simps is_space_def)
  show ?thesis
    unfolding preserve_description_def preserve_words_any [OF f]
    using assms(1,2,3) h
    by (simp add: gst_scan del: py_join.simps gst_words_aux.simps)
qed

lemma plain_word: "plain t \<Longrightarrow> py_split_aux w t = (if w @ t = [] then [] else [w @ t])"
  by (rule py_split_aux_word_end) (simp add: plain_def)

lemma plain_unquoted: "plain t \<Longrightarrow> unquoted t"
  by (simp add: plain_def)

lemma tiling_queues:
  assumes "\<And>x. plain (float_repr fm x)"
    and "unquoted (input_path a)" and "unquoted (output_path a)"
    and "plain (hef a)" and "plain (postprocess_so a)"
  shows "queues (gst_words (tiling_description fm a)) = replicate 7 queue_settings"
  unfolding tiling_gst_words [OF assms(1,2,3) plain_unquoted [OF assms(4)] plain_unquoted [OF assms(5)]]
  by (simp add: plain_word [OF assms(4)] plain_word [OF assms(5)] location_word
      queue_settings_def numeral_eq_Suc del: py_join.simps)

lemma preserve_queues:
  assumes "\<And>x. plain (float_repr fm x)"
    and "unquoted (input_path a)" and "unquoted (output_path a)"
    and "plain (hef a)" and "plain (postprocess_so a)"
  shows "queues (gst_words (preserve_description fm a)) = replicate 5 queue_settings"
  unfolding preserve_gst_words [OF assms(1,2,3) plain_unquoted [OF assms(4)] plain_unquoted [OF assms(5)]]
  by (simp add: plain_word [OF assms(4)] plain_word [OF assms(5)] location_word
      queue_settings_def numeral_eq_Suc del: py_join.simps)

lemma example_format_plain: "plain (float_repr example_format x)"
  by (simp add: example_format_def plain_simps is_space_def)

lemma example_strings_unquoted:
  "unquoted ''in.mp4''" "unquoted ''out/result.mp4''" "unquoted DEFAULT_HEF_PATH"
  "unquoted DEFAULT_POSTPROCESS_SO"
  by (simp_all add: unquoted_def DEFAULT_HEF_PATH_def DEFAULT_POSTPROCESS_SO_def)

lemma queue_settings_ok: "bounded_non_discarding queue_settings"
  by (simp add: bounded_non_discarding_def setting_def queue_settings_def)

text \<open>
  The queues the builder writes itself. When the model and library paths contain no
  white space, double quote or backslash, and the two quoted locations no double quote
  or backslash (white space they may contain), floats being printed without such
  characters: the queues of the graph description are exactly the seven (tiling
  script) or five (resolution-preserving script) queues of the f-string, each with the
  settings \<^verbatim>\<open>leaky=no max-size-buffers=30 max-size-bytes=0 max-size-time=0\<close>, that is
  bounded by a fixed count of buffered items and non-discarding.
\<close>

lemma builder_queues:
  assumes "\<And>x. plain (float_repr fm x)"
  shows "unquoted (input_path a) \<and> unquoted (output_path a) \<and> plain (hef a)
          \<and> plain (postprocess_so a) \<Longrightarrow>
            queues (gst_words (tiling_description fm a)) = replicate 7 queue_settings
            \<and> list_all bounded_non_discarding (queues (gst_words (tiling_description fm a)))"
    and "unquoted (input_path b) \<and> unquoted (output_path b) \<and> plain (hef b)
          \<and> plain (postprocess_so b) \<Longrightarrow>
            queues (gst_words (preserve_description fm b)) = replicate 5 queue_settings
            \<and> list_all bounded_non_discarding (queues (gst_words (preserve_description fm b)))"
  using assms by (simp_all add: tiling_queues preserve_queues queue_settings_ok list_all_iff)

text \<open>
  The two locations are written between double quotes, so white space in them adds
  nothing to the graph: with the text of a leaky queue in the input path the
  description still has the seven queues of the f-string.
\<close>

lemma quoted_location_adds_no_queue:
  "\<not> no_space (input_path quoted_args)
   \<and> queues (gst_words (tiling_description example_format quoted_args))
       = replicate 7 queue_settings"
proof -
  have u: "unquoted (input_path quoted_args)" "unquoted (output_path quoted_args)"
    by (simp_all add: quoted_args_def example_args_def unquoted_def)
  have p: "plain (hef quoted_args)" "plain (postprocess_so quoted_args)"
    by (simp_all add: quoted_args_def example_args_def plain_simps is_space_def
        DEFAULT_HEF_PATH_def DEFAULT_POSTPROCESS_SO_def)
  have "\<not> no_space (input_path quoted_args)"
    by (simp add: quoted_args_def no_space_def is_space_def)
  with tiling_queues [OF example_format_plain u p] show ?thesis by simp
qed

lemma injected_hef_words:
  "py_split_aux ''hef-path='' (hef injected_args)
     = [''hef-path=m.hef'', ''!'', ''queue'', ''leaky=downstream'', ''!'',
        ''hailonet'', ''hef-path=m.hef'']"
  "py_split_aux ''hef-path='' (hef injected_preserve_args)
     = [''hef-path=m.hef'', ''!'', ''queue'', ''leaky=downstream'', ''!'',
        ''hailonet'', ''hef-path=m.hef'']"
  by (simp_all add: injected_args_def injected_preserve_args_def example_args_def
      example_preserve_args_def is_space_def)

lemma injected_tiling_queues:
  "queues (gst_words (tiling_description example_format injected_args))
     = replicate 3 queue_settings @ [[''leaky=downstream'']] @ replicate 4 queue_settings"
proof -
  have u: "unquoted (input_path injected_args)" "unquoted (output_path injected_args)"
    "unquoted (hef injected_args)" "unquoted (postprocess_so injected_args)"
    by (simp_all add: injected_args_def example_args_def unquoted_def
        DEFAULT_POSTPROCESS_SO_def)
  have so: "py_split_aux ''so-path='' (postprocess_so injected_args)
      = [''so-path='' @ DEFAULT_POSTPROCESS_SO]"
    by (simp add: injected_args_def example_args_def DEFAULT_POSTPROCESS_SO_def is_space_def)
  show ?thesis
    unfolding tiling_gst_words [OF example_format_plain u] injected_hef_words so
    by (simp add: location_word queue_settings_def numeral_eq_Suc del: py_join.simps)
qed

lemma injected_preserve_queues:
  "queues (gst_words (preserve_description example_format injected_preserve_args))
     = replicate 2 queue_settings @ [[''leaky=downstream'']] @ replicate 3 queue_settings"
proof -
  have u: "unquoted (input_path injected_preserve_args)"
    "unquoted (output_path injected_preserve_args)"
    "unquoted (hef injected_preserve_args)" "unquoted (postprocess_so injected_preserve_args)"
    by (simp_all add: injected_preserve_args_def example_preserve_args_def unquoted_def
        DEFAULT_POSTPROCESS_SO_def)
  have so: "py_split_aux ''so-path='' (postprocess_so injected_preserve_args)
      = [''so-path='' @ DEFAULT_POSTPROCESS_SO]"
    by (simp add: injected_preserve_args_def example_preserve_args_def
        DEFAULT_POSTPROCESS_SO_def is_space_def)
  show ?thesis
    unfolding preserve_gst_words [OF example_format_plain u] injected_hef_words so
    by (simp add: location_word queue_settings_def numeral_eq_Suc del: py_join.simps)
qed

text \<open>
  C6. For every argument set, every queue of the graph description is bounded by a
  fixed count of buffered items and non-discarding. The builder breaks this where it
  writes the model path into the description without the double quotes it puts around
  the two locations: with the model path
  \<^verbatim>\<open>m.hef ! queue leaky=downstream ! hailonet hef-path=m.hef\<close> the description of
  either script holds one queue more than the f-string, the fourth of eight (tiling
  script) or the third of six (resolution-preserving script), and that queue is set to
  \<^verbatim>\<open>leaky=downstream\<close>: when full it discards buffers instead of blocking its producer.
\<close>

theorem injected_hef_adds_leaky_queue:
  "queues (gst_words (tiling_description example_format injected_args))
     = replicate 3 queue_settings @ [[''leaky=downstream'']] @ replicate 4 queue_settings
   \<and> queues (gst_words (preserve_description example_format injected_preserve_args))
     = replicate 2 queue_settings @ [[''leaky=downstream'']] @ replicate 3 queue_settings
   \<and> \<not> bounded_non_discarding [''leaky=downstream'']
   \<and> \<not> list_all bounded_non_discarding
         (queues (gst_words (tiling_description example_format injected_args)))
   \<and> \<not> list_all bounded_non_discarding
         (queues (gst_words (preserve_description example_format injected_preserve_args)))"
proof -
  have n: "\<not> bounded_non_discarding [''leaky=downstream'']"
    by (simp add: bounded_non_discarding_def setting_def)
  with injected_tiling_queues injected_preserve_queues show ?thesis by simp
qed

text \<open>
  C9. For every command line of the tiling script that \<^verbatim>\<open>argparse\<close> accepts, the
  parsed \<open>remove_large_landscape\<close> is true and the graph description built from the
  arguments contains the word \<^verbatim>\<open>remove-large-landscape=true\<close>: the flag is
  \<^verbatim>\<open>store_true\<close> with the default \<open>True\<close>, so its value is true whether the flag is
  given or not.
\<close>

theorem remove_large_landscape_always_true:
  "(tiling_parse_args c = Inr a \<longrightarrow>
      remove_large_landscape a
      \<and> ''remove-large-landscape=true'' \<in> set (py_split (tiling_description fm a)))
   \<and> store_true REMOVE_LARGE_LANDSCAPE given"
proof (intro conjI impI)
  show "store_true REMOVE_LARGE_LANDSCAPE given"
    by (simp add: store_true_def REMOVE_LARGE_LANDSCAPE_def)
  assume p: "tiling_parse_args c = Inr a"
  then show r: "remove_large_landscape a"
    by (auto simp: tiling_parse_args_def store_true_def REMOVE_LARGE_LANDSCAPE_def
        split: if_splits option.splits)
  have h: "py_split (tiling_description fm a) = py_split (tiling_pipeline_text fm a)"
    by (simp only: tiling_description_def py_split_description)
  have w: "py_split (''                remove-large-landscape='' @ str_bool_lower True)
             = [''remove-large-landscape=true'']"
    by (simp add: py_split_def is_space_def str_bool_lower_def)
  have "''                remove-large-landscape='' @ str_bool_lower (remove_large_landscape a)
          = ''                remove-large-landscape='' @ str_bool_lower True"
    using r by simp
  have "set (py_split (''                remove-large-landscape='' @ str_bool_lower True))
          \<subseteq> set (py_split (tiling_pipeline_text fm a))"
    unfolding tiling_pipeline_text_def py_split_lines using r
    by (simp only: set_concat set_map list.simps image_insert) blast
  with w h show "''remove-large-landscape=true'' \<in> set (py_split (tiling_description fm a))"
    by simp
qed

theorem remove_large_landscape_always_true_witness:
  "tiling_parse_args example_cli = Inr example_args
   \<and> tiling_parse_args (example_cli\<lparr>cli_remove_large_landscape := True\<rparr>) = Inr example_args
   \<and> remove_large_landscape example_args
   \<and> ''remove-large-landscape=true''
       \<in> set (py_split (tiling_description example_format example_args))"
proof -
  have p: "tiling_parse_args example_cli = Inr example_args"
    by (simp add: tiling_parse_args_def example_cli_def example_args_def with_default_def
        store_true_def)
  have p': "tiling_parse_args (example_cli\<lparr>cli_remove_large_landscape := True\<rparr>) = Inr example_args"
    by (simp add: tiling_parse_args_def example_cli_def example_args_def with_default_def
        store_true_def REMOVE_LARGE_LANDSCAPE_def)
  from remove_large_landscape_always_true [of example_cli example_args example_format] p p'
  show ?thesis by simp
qed

end
